theory Spec2Isabelle
  imports Main
begin

section \<open>Data model of \<open>pydantic_ai/tools.py\<close>\<close>

subsection \<open>Python values\<close>

text \<open>
  Values of Python's \<open>Any\<close> as far as the tool pipeline moves them around: decoded
  arguments, dependency data and the content a tool returns. A \<open>dict\<close> is an association
  list, since Python dictionaries keep insertion order.
\<close>

datatype pyval =
    PyNone
  | PyBool bool
  | PyInt int
  | PyStr string
  | PyList "pyval list"
  | PyDict "(string \<times> pyval) list"

subsection \<open>Exceptions\<close>

text \<open>
  One entry of \<open>ValidationError.errors()\<close> (pydantic's \<open>ErrorDetails\<close> typed dict): the keys
  \<open>type\<close>, \<open>loc\<close>, \<open>msg\<close>, \<open>input\<close> are always there, \<open>ctx\<close> and \<open>url\<close> are optional.
\<close>

datatype loc_item = LocInt int | LocStr string

record ErrorDetails =
  ed_type :: string
  ed_loc :: "loc_item list"
  ed_msg :: string
  ed_input :: pyval
  ed_ctx :: "(string \<times> pyval) list option"
  ed_url :: "string option"

text \<open>
  \<open>exc.errors(include_url=..., include_context=...)\<close> of pydantic: the list of line errors,
  each one without its \<open>url\<close> key unless \<open>include_url\<close>, and without its \<open>ctx\<close> key unless
  \<open>include_context\<close>. pydantic is an external library; this is its documented behaviour.
\<close>

definition errors :: "bool \<Rightarrow> bool \<Rightarrow> ErrorDetails list \<Rightarrow> ErrorDetails list" where
  "errors include_url include_context line_errors =
     map (\<lambda>e. e\<lparr>ed_ctx := (if include_context then ed_ctx e else None),
                ed_url := (if include_url then ed_url e else None)\<rparr>) line_errors"

text \<open>
  \<open>retry_exc\<close> is the union \<open>ValidationError | ModelRetry\<close> that \<open>Tool._on_error\<close> takes:
  a pydantic \<open>ValidationError\<close> with its line errors, or a \<open>ModelRetry\<close> with its \<open>message\<close>.
  \<open>exn\<close> is everything that can be raised in the pipeline: one of those two (\<open>Exc\<close>),
  \<open>UnexpectedModelBehavior\<close> with its message and its \<open>__cause__\<close> (set by \<open>raise ... from exc\<close>),
  or any other exception, known by its class name only.
\<close>

datatype retry_exc =
    ValidationError "ErrorDetails list"
  | ModelRetry string

datatype exn =
    Exc retry_exc
  | UnexpectedModelBehavior string "retry_exc option"
  | OtherException string

subsection \<open>Messages and the run context\<close>

text \<open>
  \<open>ToolCallPart.args\<close> has type \<open>str | dict[str, Any] | None\<close>.
\<close>

datatype tool_args =
    ArgsStr string
  | ArgsDict "(string \<times> pyval) list"
  | ArgsNone

record ToolCallPart =
  tool_name :: string
  args :: tool_args
  tool_call_id :: string

text \<open>
  The two results of a run: \<open>ToolReturnPart(tool_name, content, tool_call_id)\<close> and
  \<open>RetryPromptPart(tool_name, content, tool_call_id)\<close>, whose content is a list of error
  details or a string.
\<close>

datatype retry_content =
    ErrorList "ErrorDetails list"
  | Text string

datatype result_part =
    ToolReturnPart string pyval string
  | RetryPromptPart string retry_content string

text \<open>
  \<open>RunContext\<close>: the fields of the dataclass that the pipeline reads or replaces, and the
  dependency data. \<open>tool_call_id\<close> and \<open>tool_name\<close> are \<open>str | None\<close>.
\<close>

record RunContext =
  deps :: pyval
  retry :: int
  run_step :: int
  ctx_tool_call_id :: "string option"
  ctx_tool_name :: "string option"

subsection \<open>The callable, its schema and the tool\<close>

text \<open>
  The tool function is opaque. It gets the run context (when it takes one) and the decoded
  arguments, and it returns a value or raises. It may have state of its own (a counter in a
  closure, a database): that state is \<open>'w\<close>, passed in and returned. \<open>fn_name\<close> is
  the function's \<open>__name__\<close>, \<open>fn_is_async\<close> is what \<open>_utils.is_async_callable\<close> says of it.
\<close>

record 'w pyfunction =
  fn_name :: string
  fn_is_async :: bool
  fn_call :: "RunContext option \<Rightarrow> pyval \<Rightarrow> 'w \<Rightarrow> (exn + pyval) \<times> 'w"

text \<open>
  pydantic-core's \<open>SchemaValidator\<close>, by its two entry points. Each returns the validated
  value or raises.
\<close>

record SchemaValidator =
  validate_json :: "string \<Rightarrow> exn + pyval"
  validate_python :: "pyval \<Rightarrow> exn + pyval"

record 'w FunctionSchema =
  fs_function :: "'w pyfunction"
  fs_description :: "string option"
  validator :: SchemaValidator
  json_schema :: pyval
  fs_takes_ctx :: bool
  is_async :: bool

text \<open>
  The dataclass \<open>Tool\<close>. The fields \<open>prepare\<close>, \<open>docstring_format\<close> and
  \<open>require_parameter_descriptions\<close> play no part in running a tool and are left out.
\<close>

record 'w Tool =
  tool_function :: "'w pyfunction"
  takes_ctx :: bool
  max_retries :: "int option"
  name :: string
  description :: "string option"
  strict :: "bool option"
  function_schema :: "'w FunctionSchema"
  current_retry :: int

section \<open>Formatting\<close>

text \<open>
  \<open>str(n)\<close> for a Python \<open>int\<close>, and for \<open>int | None\<close>, as the f-string of
  \<open>_on_error\<close> renders \<open>self.max_retries\<close>.
\<close>

fun str_nat :: "nat \<Rightarrow> string" where
  "str_nat n =
     (if n < 10 then [''0123456789'' ! n]
      else str_nat (n div 10) @ [''0123456789'' ! (n mod 10)])"

declare str_nat.simps [simp del]

definition str_int :: "int \<Rightarrow> string" where
  "str_int i = (if i < 0 then CHR ''-'' # str_nat (nat (- i)) else str_nat (nat i))"

definition str_int_opt :: "int option \<Rightarrow> string" where
  "str_int_opt v = (case v of None \<Rightarrow> ''None'' | Some i \<Rightarrow> str_int i)"

section \<open>Running a tool\<close>

text \<open>
  Modelled from the spec: \<open>FunctionSchema.call\<close> of the module \<open>_function_schema\<close>, which is
  not among the sources. Section 4.3 of the specification: a callable declared without a
  context parameter is invoked with only the decoded parameters; a callable declared with
  one receives the context as its first argument.
\<close>

definition call :: "'w FunctionSchema \<Rightarrow> pyval \<Rightarrow> RunContext \<Rightarrow> 'w \<Rightarrow> (exn + pyval) \<times> 'w" where
  "call fs args_dict ctx w =
     (if fs_takes_ctx fs then fn_call (fs_function fs) (Some ctx) args_dict w
      else fn_call (fs_function fs) None args_dict w)"

text \<open>
  \<open>Tool._on_error\<close>. The counter is incremented first; the increment stays when the
  exception is raised. The result is the raised exception or the returned part, and the tool
  after the call.
\<close>

definition on_error :: "'w Tool \<Rightarrow> retry_exc \<Rightarrow> ToolCallPart \<Rightarrow> (exn + result_part) \<times> 'w Tool" where
  "on_error self exc call_message =
     (let self = self\<lparr>current_retry := current_retry self + 1\<rparr> in
      if max_retries self = None \<or> current_retry self > the (max_retries self) then
        (Inl (UnexpectedModelBehavior
               (''Tool exceeded max retries count of '' @ str_int_opt (max_retries self))
               (Some exc)),
         self)
      else
        (let content =
           (case exc of
              ValidationError line_errors \<Rightarrow> ErrorList (errors False False line_errors)
            | ModelRetry message \<Rightarrow> Text message)
         in (Inr (RetryPromptPart (tool_name call_message) content (tool_call_id call_message)),
             self)))"

text \<open>
  The first \<open>try\<close> block of \<open>Tool._run\<close>: \<open>validate_json(message.args or '{}')\<close> when the
  arguments are a string, \<open>validate_python(message.args or {})\<close> otherwise. An empty
  dictionary is falsy and is replaced by a new empty dictionary, which is the same value.
\<close>

definition decode_args :: "SchemaValidator \<Rightarrow> tool_args \<Rightarrow> exn + pyval" where
  "decode_args v a =
     (case a of
        ArgsStr s \<Rightarrow> validate_json v (if s = [] then ''{}'' else s)
      | ArgsDict d \<Rightarrow> validate_python v (PyDict (if d = [] then [] else d))
      | ArgsNone \<Rightarrow> validate_python v (PyDict []))"

text \<open>
  The context that \<open>Tool._run\<close> builds with \<open>dataclasses.replace\<close>.
\<close>

definition derive_ctx :: "'w Tool \<Rightarrow> ToolCallPart \<Rightarrow> RunContext \<Rightarrow> RunContext" where
  "derive_ctx self message run_context =
     run_context\<lparr>retry := current_retry self,
                 ctx_tool_name := Some (tool_name message),
                 ctx_tool_call_id := Some (tool_call_id message)\<rparr>"

text \<open>
  The second \<open>try\<close> block of \<open>Tool._run\<close> and what follows it, given what the call did:
  a \<open>ModelRetry\<close> goes to \<open>_on_error\<close>, any other exception leaves the method as it is, and
  a returned value resets the counter and is wrapped in a \<open>ToolReturnPart\<close>.
\<close>

definition respond ::
  "'w Tool \<Rightarrow> ToolCallPart \<Rightarrow> (exn + pyval) \<times> 'w \<Rightarrow> (exn + result_part) \<times> 'w Tool \<times> 'w" where
  "respond self message called =
     (case called of
        (Inl (Exc (ModelRetry m)), w') \<Rightarrow>
          (case on_error self (ModelRetry m) message of (r, self') \<Rightarrow> (r, self', w'))
      | (Inl e, w') \<Rightarrow> (Inl e, self, w')
      | (Inr response_content, w') \<Rightarrow>
          (Inr (ToolReturnPart (tool_name message) response_content (tool_call_id message)),
           self\<lparr>current_retry := 0\<rparr>, w'))"

text \<open>
  \<open>Tool._run\<close>. Only a \<open>ValidationError\<close> of the decoding and only a \<open>ModelRetry\<close> of the
  call are caught. The result is the raised exception or the returned part, the tool after
  the call, and the state of the callable.
\<close>

definition Tool__run ::
  "'w Tool \<Rightarrow> ToolCallPart \<Rightarrow> RunContext \<Rightarrow> 'w \<Rightarrow> (exn + result_part) \<times> 'w Tool \<times> 'w" where
  "Tool__run self message run_context w =
     (case decode_args (validator (function_schema self)) (args message) of
        Inl (Exc (ValidationError line_errors)) \<Rightarrow>
          (case on_error self (ValidationError line_errors) message of
             (r, self') \<Rightarrow> (r, self', w))
      | Inl e \<Rightarrow> (Inl e, self, w)
      | Inr args_dict \<Rightarrow>
          respond self message
            (call (function_schema self) args_dict (derive_ctx self message run_context) w))"

text \<open>
  \<open>Tool.run\<close> wraps \<open>_run\<close> in a tracing span and returns its response. The span belongs to
  the tracer, which is outside the model; \<open>include_content\<close> only decides what the span
  records.
\<close>

definition Tool_run ::
  "'w Tool \<Rightarrow> ToolCallPart \<Rightarrow> RunContext \<Rightarrow> bool \<Rightarrow> 'w \<Rightarrow> (exn + result_part) \<times> 'w Tool \<times> 'w" where
  "Tool_run self message run_context include_content w = Tool__run self message run_context w"

text \<open>
  \<open>Tool.__init__\<close>. \<open>schema_compiler\<close> stands for the call
  \<open>_function_schema.function_schema(function, schema_generator, takes_ctx=..., ...)\<close> of the
  external schema compiler, as a function of \<open>takes_ctx\<close>; it is used only when no
  \<open>function_schema\<close> is given. \<open>x or y\<close> takes \<open>y\<close> when \<open>x\<close> is \<open>None\<close> or the empty string.
\<close>

definition Tool_init ::
  "(bool option \<Rightarrow> 'w FunctionSchema) \<Rightarrow> 'w pyfunction \<Rightarrow> bool option \<Rightarrow> int option \<Rightarrow>
   string option \<Rightarrow> string option \<Rightarrow> bool option \<Rightarrow> 'w FunctionSchema option \<Rightarrow> 'w Tool" where
  "Tool_init schema_compiler function takes_ctx_arg max_retries_arg name_arg description_arg
     strict_arg function_schema_arg =
     (let fs = (case function_schema_arg of
                  Some fs \<Rightarrow> fs
                | None \<Rightarrow> schema_compiler takes_ctx_arg)
      in \<lparr>tool_function = function,
          takes_ctx = fs_takes_ctx fs,
          max_retries = max_retries_arg,
          name = (case name_arg of
                    None \<Rightarrow> fn_name function
                  | Some n \<Rightarrow> if n = [] then fn_name function else n),
          description = (case description_arg of
                           None \<Rightarrow> fs_description fs
                         | Some d \<Rightarrow> if d = [] then fs_description fs else Some d),
          strict = strict_arg,
          function_schema = fs,
          current_retry = 0\<rparr>)"

text \<open>
  \<open>SchemaValidator(schema=core_schema.any_schema())\<close>: \<open>validate_python\<close> returns its input,
  whatever it is; \<open>validate_json\<close> parses the text with pydantic-core's JSON parser
  \<open>from_json\<close>, which is a parameter here.
\<close>

definition any_schema_validator :: "(string \<Rightarrow> exn + pyval) \<Rightarrow> SchemaValidator" where
  "any_schema_validator from_json = \<lparr>validate_json = from_json, validate_python = Inr\<rparr>"

text \<open>
  \<open>Tool.from_schema\<close>.
\<close>

definition from_schema ::
  "(string \<Rightarrow> exn + pyval) \<Rightarrow> (bool option \<Rightarrow> 'w FunctionSchema) \<Rightarrow> 'w pyfunction \<Rightarrow> string \<Rightarrow>
   string option \<Rightarrow> pyval \<Rightarrow> 'w Tool" where
  "from_schema from_json schema_compiler function name_arg description_arg json_schema_arg =
     (let function_schema_new =
            \<lparr>fs_function = function,
             fs_description = description_arg,
             validator = any_schema_validator from_json,
             json_schema = json_schema_arg,
             fs_takes_ctx = False,
             is_async = fn_is_async function\<rparr>
      in Tool_init schema_compiler function (Some False) None (Some name_arg) description_arg None
           (Some function_schema_new))"

section \<open>Attempts and sequences of calls\<close>

text \<open>
  What one attempt does before the retry counter is consulted: the decoding raises a
  \<open>ValidationError\<close> or the callable raises \<open>ModelRetry\<close> (\<open>Recoverable\<close>), something else is
  raised (\<open>Fails\<close>), or the callable returns (\<open>Succeeds\<close>).
\<close>

datatype attempt = Succeeds | Recoverable | Fails

definition attempt_kind :: "'w Tool \<Rightarrow> ToolCallPart \<Rightarrow> RunContext \<Rightarrow> 'w \<Rightarrow> attempt" where
  "attempt_kind self message run_context w =
     (case decode_args (validator (function_schema self)) (args message) of
        Inl (Exc (ValidationError line_errors)) \<Rightarrow> Recoverable
      | Inl e \<Rightarrow> Fails
      | Inr args_dict \<Rightarrow>
          (case fst (call (function_schema self) args_dict
                       (derive_ctx self message run_context) w) of
             Inl (Exc (ModelRetry m)) \<Rightarrow> Recoverable
           | Inl e \<Rightarrow> Fails
           | Inr response_content \<Rightarrow> Succeeds))"

text \<open>
  A caller that runs the same tool on one call after the other, whatever each call raises:
  the kind of each attempt with what \<open>run\<close> gave for it.
\<close>

fun run_all ::
  "'w Tool \<Rightarrow> 'w \<Rightarrow> (ToolCallPart \<times> RunContext) list \<Rightarrow> (attempt \<times> (exn + result_part)) list" where
  "run_all self w [] = []"
| "run_all self w ((message, run_context) # rest) =
     (case Tool_run self message run_context False w of
        (r, self', w') \<Rightarrow> (attempt_kind self message run_context w, r) # run_all self' w' rest)"

definition is_retry_prompt :: "exn + result_part \<Rightarrow> bool" where
  "is_retry_prompt r = (case r of Inr (RetryPromptPart n c i) \<Rightarrow> True | _ \<Rightarrow> False)"

definition is_retries_exhausted :: "exn + result_part \<Rightarrow> bool" where
  "is_retries_exhausted r = (case r of Inl (UnexpectedModelBehavior m c) \<Rightarrow> True | _ \<Rightarrow> False)"

text \<open>
  What \<open>run\<close> gave for the recoverable failures of a sequence of calls, in order.
\<close>

definition recoverable_results ::
  "'w Tool \<Rightarrow> 'w \<Rightarrow> (ToolCallPart \<times> RunContext) list \<Rightarrow> (exn + result_part) list" where
  "recoverable_results self w calls =
     map snd (filter (\<lambda>p. fst p = Recoverable) (run_all self w calls))"

section \<open>Example tools\<close>

text \<open>
  A tool with one integer parameter \<open>x\<close>. Its validator wants \<open>x\<close> to be an integer below
  100; its function wants \<open>x\<close> to be positive and asks for a retry otherwise. The function
  counts its calls.
\<close>

definition x_error :: "pyval \<Rightarrow> ErrorDetails" where
  "x_error v =
     \<lparr>ed_type = ''less_than'', ed_loc = [LocStr ''x''],
      ed_msg = ''Input should be less than 100'', ed_input = v,
      ed_ctx = Some [(''lt'', PyInt 100)],
      ed_url = Some ''https://errors.pydantic.dev/2.10/v/less_than''\<rparr>"

definition x_validate :: "pyval \<Rightarrow> exn + pyval" where
  "x_validate v =
     (case v of
        PyDict d \<Rightarrow>
          (case map_of d ''x'' of
             Some (PyInt n) \<Rightarrow>
               if n < 100 then Inr v else Inl (Exc (ValidationError [x_error (PyInt n)]))
           | _ \<Rightarrow> Inl (Exc (ValidationError [x_error v])))
      | _ \<Rightarrow> Inl (Exc (ValidationError [x_error v])))"

definition x_validator :: SchemaValidator where
  "x_validator =
     \<lparr>validate_json = (\<lambda>s. if s = ''{}'' then x_validate (PyDict [])
                            else Inl (OtherException ''NotImplementedError'')),
      validate_python = x_validate\<rparr>"

definition positive :: "nat pyfunction" where
  "positive =
     \<lparr>fn_name = ''positive'', fn_is_async = False,
      fn_call = (\<lambda>ctx a w.
        case a of
          PyDict d \<Rightarrow>
            (case map_of d ''x'' of
               Some (PyInt n) \<Rightarrow>
                 if 0 < n then (Inr (PyInt n), Suc w)
                 else if n = 0 then (Inl (OtherException ''ZeroDivisionError''), Suc w)
                 else (Inl (Exc (ModelRetry ''x must be positive'')), Suc w)
             | _ \<Rightarrow> (Inl (OtherException ''TypeError''), Suc w))
        | _ \<Rightarrow> (Inl (OtherException ''TypeError''), Suc w))\<rparr>"

definition positive_schema :: "bool option \<Rightarrow> nat FunctionSchema" where
  "positive_schema t =
     \<lparr>fs_function = positive, fs_description = None, validator = x_validator,
      json_schema = PyDict [], fs_takes_ctx = False, is_async = False\<rparr>"

definition positive_tool :: "int option \<Rightarrow> string \<Rightarrow> nat Tool" where
  "positive_tool k n = Tool_init positive_schema positive None k (Some n) None None None"

definition x_call :: "string \<Rightarrow> int \<Rightarrow> ToolCallPart" where
  "x_call i n = \<lparr>tool_name = ''positive'', args = ArgsDict [(''x'', PyInt n)], tool_call_id = i\<rparr>"

definition base_ctx :: RunContext where
  "base_ctx = \<lparr>deps = PyNone, retry = 7, run_step = 1,
               ctx_tool_call_id = Some ''old'', ctx_tool_name = None\<rparr>"

text \<open>
  A tool without parameters that takes the context and returns what it sees in it.
\<close>

definition no_fields_validator :: SchemaValidator where
  "no_fields_validator =
     \<lparr>validate_json = (\<lambda>s. if s = ''{}'' then Inr (PyDict [])
                            else Inl (Exc (ValidationError []))),
      validate_python = (\<lambda>v. if v = PyDict [] then Inr v else Inl (Exc (ValidationError [])))\<rparr>"

definition echo :: "unit pyfunction" where
  "echo =
     \<lparr>fn_name = ''echo'', fn_is_async = False,
      fn_call = (\<lambda>ctx a w.
        case ctx of
          None \<Rightarrow> (Inl (OtherException ''TypeError''), w)
        | Some c \<Rightarrow>
            (Inr (PyList [PyInt (retry c),
                          (case ctx_tool_name c of None \<Rightarrow> PyNone | Some n \<Rightarrow> PyStr n),
                          (case ctx_tool_call_id c of None \<Rightarrow> PyNone | Some i \<Rightarrow> PyStr i),
                          a]), w))\<rparr>"

definition echo_schema :: "bool option \<Rightarrow> unit FunctionSchema" where
  "echo_schema t =
     \<lparr>fs_function = echo, fs_description = None, validator = no_fields_validator,
      json_schema = PyDict [], fs_takes_ctx = True, is_async = False\<rparr>"

definition echo_tool :: "unit Tool" where
  "echo_tool = Tool_init echo_schema echo None (Some 1) None None None None"

text \<open>
  A tool without parameters that takes the context and always asks for a retry, with the
  tool name of its context as the message. Its bound is 0.
\<close>

definition complain :: "unit pyfunction" where
  "complain =
     \<lparr>fn_name = ''complain'', fn_is_async = False,
      fn_call = (\<lambda>ctx a w.
        case ctx of
          None \<Rightarrow> (Inl (OtherException ''TypeError''), w)
        | Some c \<Rightarrow>
            (Inl (Exc (ModelRetry (case ctx_tool_name c of None \<Rightarrow> [] | Some n \<Rightarrow> n))), w))\<rparr>"

definition complain_schema :: "bool option \<Rightarrow> unit FunctionSchema" where
  "complain_schema t =
     \<lparr>fs_function = complain, fs_description = None, validator = no_fields_validator,
      json_schema = PyDict [], fs_takes_ctx = True, is_async = False\<rparr>"

definition complain_tool :: "string \<Rightarrow> unit Tool" where
  "complain_tool n = Tool_init complain_schema complain None (Some 0) (Some n) None None None"

text \<open>
  A call of the first tool with textual arguments; its validator reads no text but \<open>{}\<close>.
\<close>

definition text_call :: "string \<Rightarrow> string \<Rightarrow> ToolCallPart" where
  "text_call i s = \<lparr>tool_name = ''positive'', args = ArgsStr s, tool_call_id = i\<rparr>"

text \<open>
  Three calls of the first tool, none of which succeeds: a negative \<open>x\<close> (the function
  asks for a retry), zero (the function fails) and 100 (the validator rejects it).
\<close>

definition failing_calls :: "(ToolCallPart \<times> RunContext) list" where
  "failing_calls =
     [(x_call ''c1'' (- 1), base_ctx), (x_call ''c2'' 0, base_ctx), (x_call ''c3'' 100, base_ctx)]"

section \<open>Basic facts\<close>

lemmas run_defs =
  Tool_run_def Tool__run_def respond_def call_def derive_ctx_def decode_args_def on_error_def
  errors_def str_int_opt_def str_int_def str_nat.simps Tool_init_def

text \<open>
  The rendering of the bound is injective: different bounds give different texts, and no
  integer is rendered as \<open>None\<close>.
\<close>

lemma str_nat_small: "n < 10 \<Longrightarrow> str_nat n = [''0123456789'' ! n]"
  using str_nat.simps [of n] by simp

lemma str_nat_large:
  "\<not> n < 10 \<Longrightarrow> str_nat n = str_nat (n div 10) @ [''0123456789'' ! (n mod 10)]"
  using str_nat.simps [of n] by simp

lemma digit_inj:
  "a < 10 \<Longrightarrow> b < 10 \<Longrightarrow> ''0123456789'' ! a = ''0123456789'' ! b \<Longrightarrow> a = b"
  by (subst (asm) nth_eq_iff_index_eq) simp_all

lemma digit_mem: "n < 10 \<Longrightarrow> ''0123456789'' ! n \<in> set ''0123456789''"
  by (rule nth_mem) simp


lemma str_nat_digits: "str_nat n \<noteq> [] \<and> set (str_nat n) \<subseteq> set ''0123456789''"
proof (induction n rule: str_nat.induct)
  case (1 n)
  show ?case
  proof (cases "n < 10")
    case True
    with digit_mem [OF True] show ?thesis
      by (simp only: str_nat_small [OF True]) simp
  next
    case False
    have "n mod 10 < 10" by simp
    from digit_mem [OF this] 1 [OF False] show ?thesis
      by (simp only: str_nat_large [OF False]) simp
  qed
qed

lemma str_nat_inj: "str_nat a = str_nat b \<Longrightarrow> a = b"
proof (induction a arbitrary: b rule: str_nat.induct)
  case (1 a)
  have ne: "str_nat k \<noteq> []" for k using str_nat_digits by blast
  show ?case
  proof (cases "a < 10")
    case True
    show ?thesis
    proof (cases "b < 10")
      case b: True
      from "1.prems" have "''0123456789'' ! a = ''0123456789'' ! b"
        by (simp only: str_nat_small [OF True] str_nat_small [OF b] list.inject)
      with True b show ?thesis by (rule digit_inj)
    next
      case False
      from "1.prems" ne [of "b div 10"] show ?thesis
        by (simp only: str_nat_small [OF True] str_nat_large [OF False]) simp
    qed
  next
    case False
    show ?thesis
    proof (cases "b < 10")
      case True
      from "1.prems" ne [of "a div 10"] show ?thesis
        by (simp only: str_nat_small [OF True] str_nat_large [OF False]) simp
    next
      case b: False
      from "1.prems"
      have e: "str_nat (a div 10) = str_nat (b div 10)"
        and d: "''0123456789'' ! (a mod 10) = ''0123456789'' ! (b mod 10)"
        by (simp_all only: str_nat_large [OF False] str_nat_large [OF b] append1_eq_conv)
      from "1.IH" [OF False e] have "a div 10 = b div 10" .
      moreover from d have "a mod 10 = b mod 10"
        by (intro digit_inj) simp_all
      ultimately show ?thesis
        by (metis div_mult_mod_eq)
    qed
  qed
qed


lemma str_nat_hd: "\<exists>c cs. str_nat n = c # cs \<and> c \<noteq> CHR ''-'' \<and> c \<noteq> CHR ''N''"
proof -
  from str_nat_digits [of n] obtain c cs where
    s: "str_nat n = c # cs" and "c \<in> set ''0123456789''"
    by (cases "str_nat n") auto
  then have "c \<noteq> CHR ''-'' \<and> c \<noteq> CHR ''N''" by auto
  with s show ?thesis by blast
qed

lemma str_int_inj: "str_int a = str_int b \<Longrightarrow> a = b"
proof -
  assume e: "str_int a = str_int b"
  consider "a < 0" "b < 0" | "a < 0" "\<not> b < 0" | "\<not> a < 0" "b < 0" | "\<not> a < 0" "\<not> b < 0"
    by blast
  then show ?thesis
  proof cases
    case 1
    with e have "str_nat (nat (- a)) = str_nat (nat (- b))" by (simp add: str_int_def)
    then have "nat (- a) = nat (- b)" by (rule str_nat_inj)
    with 1 show ?thesis by simp
  next
    case 2
    with e str_nat_hd [of "nat b"] show ?thesis by (auto simp: str_int_def)
  next
    case 3
    with e str_nat_hd [of "nat a"] show ?thesis by (auto simp: str_int_def)
  next
    case 4
    with e have "str_nat (nat a) = str_nat (nat b)" by (simp add: str_int_def)
    then have "nat a = nat b" by (rule str_nat_inj)
    with 4 show ?thesis by simp
  qed
qed

lemma str_int_not_None: "str_int a \<noteq> ''None''"
  using str_nat_hd [of "nat a"] by (auto simp: str_int_def)

lemma str_int_opt_inj: "str_int_opt a = str_int_opt b \<Longrightarrow> a = b"
  using str_int_not_None str_int_not_None [symmetric]
  by (cases a; cases b) (auto simp: str_int_opt_def dest: str_int_inj)

text \<open>
  \<open>_on_error\<close> keeps the bound, adds one to the counter, and returns a retry prompt exactly
  when the counter was below the bound.
\<close>

lemma on_error_step:
  assumes "max_retries self = Some k"
  shows "max_retries (snd (on_error self exc m)) = Some k"
    and "current_retry (snd (on_error self exc m)) = current_retry self + 1"
    and "current_retry self < k \<Longrightarrow> is_retry_prompt (fst (on_error self exc m))"
    and "k \<le> current_retry self \<Longrightarrow> is_retries_exhausted (fst (on_error self exc m))"
  using assms
  by (auto simp: on_error_def Let_def is_retry_prompt_def is_retries_exhausted_def)

text \<open>
  What \<open>run\<close> does for each kind of attempt.
\<close>

lemma run_recoverable:
  assumes "attempt_kind self m rc w = Recoverable"
  shows "\<exists>exc w'. Tool_run self m rc ic w =
           (fst (on_error self exc m), snd (on_error self exc m), w')"
  using assms
  by (auto simp: attempt_kind_def Tool_run_def Tool__run_def respond_def case_prod_beta
           split: sum.splits exn.splits retry_exc.splits)

lemma run_fails:
  assumes "attempt_kind self m rc w = Fails"
  shows "\<exists>e w'. Tool_run self m rc ic w = (Inl e, self, w')"
  using assms
  by (auto simp: attempt_kind_def Tool_run_def Tool__run_def respond_def
           split: sum.splits exn.splits retry_exc.splits prod.splits)

lemma run_succeeds:
  assumes "attempt_kind self m rc w = Succeeds"
  shows "\<exists>v w'. Tool_run self m rc ic w =
           (Inr (ToolReturnPart (tool_name m) v (tool_call_id m)),
            self\<lparr>current_retry := 0\<rparr>, w')"
  using assms
  by (auto simp: attempt_kind_def Tool_run_def Tool__run_def respond_def
           split: sum.splits exn.splits retry_exc.splits prod.splits)

text \<open>
  \<open>run\<close> from what the decoding gave, and \<open>_on_error\<close> on each side of the bound.
\<close>

lemma run_decode_error:
  assumes "decode_args (validator (function_schema self)) (args m) = Inl (Exc (ValidationError es))"
  shows "Tool_run self m rc ic w =
           (fst (on_error self (ValidationError es) m),
            snd (on_error self (ValidationError es) m), w)"
  using assms by (simp add: Tool_run_def Tool__run_def case_prod_beta)

lemma run_decode_raises:
  assumes "decode_args (validator (function_schema self)) (args m) = Inl e"
    and "\<forall>es. e \<noteq> Exc (ValidationError es)"
  shows "Tool_run self m rc ic w = (Inl e, self, w)"
  using assms
  by (auto simp: Tool_run_def Tool__run_def split: exn.splits retry_exc.splits)

lemma run_decoded:
  assumes "decode_args (validator (function_schema self)) (args m) = Inr a"
  shows "Tool_run self m rc ic w =
           respond self m (call (function_schema self) a (derive_ctx self m rc) w)"
  using assms by (simp add: Tool_run_def Tool__run_def)

lemma run_model_retry:
  assumes "decode_args (validator (function_schema self)) (args m) = Inr a"
    and "call (function_schema self) a (derive_ctx self m rc) w = (Inl (Exc (ModelRetry s)), w')"
  shows "Tool_run self m rc ic w =
           (fst (on_error self (ModelRetry s) m), snd (on_error self (ModelRetry s) m), w')"
  using assms by (simp add: run_decoded respond_def case_prod_beta)

lemma on_error_within:
  assumes "max_retries self = Some k" and "current_retry self < k"
  shows "on_error self exc m =
     (Inr (RetryPromptPart (tool_name m)
            (case exc of ValidationError es \<Rightarrow> ErrorList (errors False False es)
                       | ModelRetry s \<Rightarrow> Text s)
            (tool_call_id m)),
      self\<lparr>current_retry := current_retry self + 1\<rparr>)"
  using assms by (simp add: on_error_def Let_def)

lemma on_error_beyond:
  assumes "max_retries self = Some k" and "k \<le> current_retry self"
  shows "on_error self exc m =
     (Inl (UnexpectedModelBehavior (''Tool exceeded max retries count of '' @ str_int k)
            (Some exc)),
      self\<lparr>current_retry := current_retry self + 1\<rparr>)"
  using assms by (simp add: on_error_def Let_def str_int_opt_def)

lemma on_error_unset:
  assumes "max_retries self = None"
  shows "on_error self exc m =
     (Inl (UnexpectedModelBehavior ''Tool exceeded max retries count of None'' (Some exc)),
      self\<lparr>current_retry := current_retry self + 1\<rparr>)"
  using assms by (simp add: on_error_def Let_def str_int_opt_def)

section \<open>The retry bound\<close>

text \<open>
  The bound for any starting value of the counter: the \<open>i\<close>-th recoverable failure (from 0)
  of a sequence without a success gets a retry prompt when the counter plus \<open>i\<close> is below
  the bound, and the fatal error otherwise.
\<close>

lemma bound_from_counter:
  assumes "max_retries self = Some k"
    and "Succeeds \<notin> fst ` set (run_all self w calls)"
    and "i < length (recoverable_results self w calls)"
  shows "(current_retry self + int i < k \<longrightarrow>
            is_retry_prompt (recoverable_results self w calls ! i)) \<and>
         (k \<le> current_retry self + int i \<longrightarrow>
            is_retries_exhausted (recoverable_results self w calls ! i))"
  using assms
proof (induction calls arbitrary: self w i)
  case Nil
  then show ?case by (simp add: recoverable_results_def)
next
  case (Cons call calls)
  obtain m rc where call: "call = (m, rc)" by (cases call)
  show ?case
  proof (cases "attempt_kind self m rc w")
    case Succeeds
    obtain r self' w' where "Tool_run self m rc False w = (r, self', w')"
      by (cases "Tool_run self m rc False w")
    with Cons.prems(2) call Succeeds show ?thesis
      by simp
  next
    case Fails
    from run_fails [OF Fails, of False] obtain e w' where
      r: "Tool_run self m rc False w = (Inl e, self, w')" by blast
    have eq: "recoverable_results self w (call # calls) = recoverable_results self w' calls"
      by (simp add: recoverable_results_def call r Fails)
    have "Succeeds \<notin> fst ` set (run_all self w' calls)"
      using Cons.prems(2) by (simp add: call r)
    from Cons.IH [OF Cons.prems(1) this] Cons.prems(3) show ?thesis
      by (simp add: eq)
  next
    case Recoverable
    from run_recoverable [OF Recoverable, of False] obtain exc w' where
      r: "Tool_run self m rc False w =
            (fst (on_error self exc m), snd (on_error self exc m), w')"
      by blast
    let ?self' = "snd (on_error self exc m)"
    have eq: "recoverable_results self w (call # calls) =
        fst (on_error self exc m) # recoverable_results ?self' w' calls"
      by (simp add: recoverable_results_def call r Recoverable)
    show ?thesis
    proof (cases i)
      case 0
      with on_error_step(3,4) [OF Cons.prems(1), of exc m] show ?thesis
        by (simp add: eq)
    next
      case (Suc j)
      have ns: "Succeeds \<notin> fst ` set (run_all ?self' w' calls)"
        using Cons.prems(2) by (simp add: call r)
      have j: "j < length (recoverable_results ?self' w' calls)"
        using Cons.prems(3) by (simp add: eq Suc)
      from Cons.IH [OF on_error_step(1) [OF Cons.prems(1)] ns j]
      show ?thesis
        by (simp add: eq Suc on_error_step(2) [OF Cons.prems(1)])
    qed
  qed
qed

text \<open>
  C1. A tool has \<open>max_retries = k\<close> and its counter is at 0 (a new tool, or one whose last
  call succeeded). It is run on a sequence of calls none of which succeeds. Then, counting
  the recoverable failures of the sequence (validation errors of the decoding and
  \<open>ModelRetry\<close> of the callable) from 0, the \<open>i\<close>-th gets a retry prompt when \<open>i < k\<close> and
  the fatal \<open>UnexpectedModelBehavior\<close> when \<open>k \<le> i\<close>: the first \<open>k\<close> get retry prompts, the
  \<open>(k+1)\<close>-th is fatal. Other exceptions in between do not count.
\<close>

theorem retry_bound:
  assumes "max_retries self = Some k"
    and "current_retry self = 0"
    and "Succeeds \<notin> fst ` set (run_all self w calls)"
    and "i < length (recoverable_results self w calls)"
  shows "(int i < k \<longrightarrow> is_retry_prompt (recoverable_results self w calls ! i)) \<and>
         (k \<le> int i \<longrightarrow> is_retries_exhausted (recoverable_results self w calls ! i))"
  using bound_from_counter [OF assms(1,3,4)] assms(2) by simp

lemma failing_calls_run:
  "run_all (positive_tool (Some 1) ''t'') 0 failing_calls =
     [(Recoverable, Inr (RetryPromptPart ''positive'' (Text ''x must be positive'') ''c1'')),
      (Fails, Inl (OtherException ''ZeroDivisionError'')),
      (Recoverable, Inl (UnexpectedModelBehavior ''Tool exceeded max retries count of 1''
         (Some (ValidationError [x_error (PyInt 100)]))))]"
  by (simp add: failing_calls_def positive_tool_def positive_schema_def positive_def
        x_validator_def x_validate_def x_error_def x_call_def base_ctx_def Tool_init_def
        run_defs attempt_kind_def Let_def)

theorem retry_bound_witness:
  "max_retries (positive_tool (Some 1) ''t'') = Some 1 \<and>
   current_retry (positive_tool (Some 1) ''t'') = 0 \<and>
   Succeeds \<notin> fst ` set (run_all (positive_tool (Some 1) ''t'') 0 failing_calls) \<and>
   length (recoverable_results (positive_tool (Some 1) ''t'') 0 failing_calls) = 2 \<and>
   is_retry_prompt (recoverable_results (positive_tool (Some 1) ''t'') 0 failing_calls ! 0) \<and>
   is_retries_exhausted (recoverable_results (positive_tool (Some 1) ''t'') 0 failing_calls ! 1)"
proof -
  let ?t = "positive_tool (Some 1) ''t''"
  have m: "max_retries ?t = Some 1" and c: "current_retry ?t = 0"
    by (simp_all add: positive_tool_def Tool_init_def Let_def)
  have n: "Succeeds \<notin> fst ` set (run_all ?t 0 failing_calls)"
    by (simp add: failing_calls_run)
  have l: "length (recoverable_results ?t 0 failing_calls) = 2"
    by (simp add: recoverable_results_def failing_calls_run)
  have "is_retry_prompt (recoverable_results ?t 0 failing_calls ! 0)"
    using retry_bound [OF m c n, of 0] l by simp
  moreover have "is_retries_exhausted (recoverable_results ?t 0 failing_calls ! 1)"
    using retry_bound [OF m c n, of 1] l by simp
  ultimately show ?thesis using m c n l by simp
qed

section \<open>Reset on success\<close>

text \<open>
  C2. Whatever the counter was, a call that succeeds returns a \<open>ToolReturnPart\<close> and leaves
  the counter at 0. A recoverable failure of the next call then takes the counter to 1, and
  it gets a retry prompt exactly when the bound is at least 1.
\<close>

theorem reset_on_success:
  assumes "attempt_kind self m rc w = Succeeds"
    and "Tool_run self m rc ic w = (r, self', w')"
  shows "current_retry self' = 0 \<and>
         (\<exists>v. r = Inr (ToolReturnPart (tool_name m) v (tool_call_id m))) \<and>
         (\<forall>m2 rc2 ic2. attempt_kind self' m2 rc2 w' = Recoverable \<longrightarrow>
            current_retry (fst (snd (Tool_run self' m2 rc2 ic2 w'))) = 1 \<and>
            (\<forall>k. max_retries self = Some k \<longrightarrow>
               (is_retry_prompt (fst (Tool_run self' m2 rc2 ic2 w')) \<longleftrightarrow> 1 \<le> k)))"
proof -
  from run_succeeds [OF assms(1), of ic] assms(2) obtain v where
    r: "r = Inr (ToolReturnPart (tool_name m) v (tool_call_id m))"
    and s: "self' = self\<lparr>current_retry := 0\<rparr>"
    by auto
  have "current_retry (fst (snd (Tool_run self' m2 rc2 ic2 w'))) = 1 \<and>
        (\<forall>k. max_retries self = Some k \<longrightarrow>
           (is_retry_prompt (fst (Tool_run self' m2 rc2 ic2 w')) \<longleftrightarrow> 1 \<le> k))"
    if "attempt_kind self' m2 rc2 w' = Recoverable" for m2 rc2 ic2
  proof -
    from run_recoverable [OF that, of ic2] obtain exc w2 where
      t: "Tool_run self' m2 rc2 ic2 w' =
            (fst (on_error self' exc m2), snd (on_error self' exc m2), w2)"
      by blast
    show ?thesis
      using t unfolding s
      by (auto simp: on_error_def Let_def is_retry_prompt_def)
  qed
  with r s show ?thesis by simp
qed

theorem reset_on_success_witness:
  "attempt_kind (positive_tool (Some 1) ''t''\<lparr>current_retry := 1\<rparr>) (x_call ''c2'' 5) base_ctx 1
     = Succeeds \<and>
   Tool_run (positive_tool (Some 1) ''t''\<lparr>current_retry := 1\<rparr>) (x_call ''c2'' 5) base_ctx False 1 =
     (Inr (ToolReturnPart ''positive'' (PyInt 5) ''c2''), positive_tool (Some 1) ''t'', 2) \<and>
   attempt_kind (positive_tool (Some 1) ''t'') (x_call ''c3'' (- 2)) base_ctx 2 = Recoverable \<and>
   current_retry (fst (snd (Tool_run (positive_tool (Some 1) ''t'') (x_call ''c3'' (- 2))
     base_ctx False 2))) = 1 \<and>
   is_retry_prompt (fst (Tool_run (positive_tool (Some 1) ''t'') (x_call ''c3'' (- 2))
     base_ctx False 2))"
proof -
  let ?t = "positive_tool (Some 1) ''t''"
  have a: "attempt_kind (?t\<lparr>current_retry := 1\<rparr>) (x_call ''c2'' 5) base_ctx 1 = Succeeds"
    by (simp add: positive_tool_def positive_schema_def positive_def x_validator_def
          x_validate_def x_error_def x_call_def base_ctx_def Tool_init_def run_defs
          attempt_kind_def Let_def)
  have b: "Tool_run (?t\<lparr>current_retry := 1\<rparr>) (x_call ''c2'' 5) base_ctx False 1 =
     (Inr (ToolReturnPart ''positive'' (PyInt 5) ''c2''), ?t, 2)"
    by (simp add: positive_tool_def positive_schema_def positive_def x_validator_def
          x_validate_def x_error_def x_call_def base_ctx_def Tool_init_def run_defs
          attempt_kind_def Let_def)
  have c: "attempt_kind ?t (x_call ''c3'' (- 2)) base_ctx 2 = Recoverable"
    by (simp add: positive_tool_def positive_schema_def positive_def x_validator_def
          x_validate_def x_error_def x_call_def base_ctx_def Tool_init_def run_defs
          attempt_kind_def Let_def)
  have d: "max_retries (?t\<lparr>current_retry := 1\<rparr>) = Some 1"
    by (simp add: positive_tool_def positive_schema_def positive_def x_validator_def
          x_validate_def x_error_def x_call_def base_ctx_def Tool_init_def Let_def)
  from reset_on_success [OF a b] c d a b show ?thesis
    by simp
qed

section \<open>Which failures become retry prompts\<close>

text \<open>
  C3. A retry prompt comes only from a \<open>ValidationError\<close> of the decoding or from a
  \<open>ModelRetry\<close> that the callable raised on the decoded arguments, and each of the two
  does give a retry prompt while the counter is below the bound. Any other exception that
  the callable raises, and any other exception of the decoding, leaves \<open>run\<close> as the same
  exception, with the tool as it was.
\<close>

theorem only_two_kinds_retried:
  "(fst (Tool_run self m rc ic w) = Inr (RetryPromptPart n c i) \<longrightarrow>
      (\<exists>es. decode_args (validator (function_schema self)) (args m) =
              Inl (Exc (ValidationError es))) \<or>
      (\<exists>a s. decode_args (validator (function_schema self)) (args m) = Inr a \<and>
              fst (call (function_schema self) a (derive_ctx self m rc) w) =
                Inl (Exc (ModelRetry s)))) \<and>
   (decode_args (validator (function_schema self)) (args m) = Inl (Exc (ValidationError es')) \<and>
    max_retries self = Some k \<and> current_retry self < k \<longrightarrow>
      fst (Tool_run self m rc ic w) =
        Inr (RetryPromptPart (tool_name m) (ErrorList (errors False False es')) (tool_call_id m))) \<and>
   (decode_args (validator (function_schema self)) (args m) = Inr a' \<and>
    call (function_schema self) a' (derive_ctx self m rc) w = (Inl (Exc (ModelRetry s')), w') \<and>
    max_retries self = Some k \<and> current_retry self < k \<longrightarrow>
      fst (Tool_run self m rc ic w) =
        Inr (RetryPromptPart (tool_name m) (Text s') (tool_call_id m))) \<and>
   (decode_args (validator (function_schema self)) (args m) = Inr a' \<and>
    call (function_schema self) a' (derive_ctx self m rc) w = (Inl e, w') \<and>
    (\<forall>s. e \<noteq> Exc (ModelRetry s)) \<longrightarrow>
      Tool_run self m rc ic w = (Inl e, self, w')) \<and>
   (decode_args (validator (function_schema self)) (args m) = Inl e \<and>
    (\<forall>es. e \<noteq> Exc (ValidationError es)) \<longrightarrow>
      Tool_run self m rc ic w = (Inl e, self, w))"
proof (intro conjI impI)
  assume "fst (Tool_run self m rc ic w) = Inr (RetryPromptPart n c i)"
  then show "(\<exists>es. decode_args (validator (function_schema self)) (args m) =
              Inl (Exc (ValidationError es))) \<or>
      (\<exists>a s. decode_args (validator (function_schema self)) (args m) = Inr a \<and>
              fst (call (function_schema self) a (derive_ctx self m rc) w) =
                Inl (Exc (ModelRetry s)))"
    by (auto simp: Tool_run_def Tool__run_def respond_def case_prod_beta
             split: sum.splits exn.splits retry_exc.splits)
next
  assume h: "decode_args (validator (function_schema self)) (args m) =
      Inl (Exc (ValidationError es')) \<and> max_retries self = Some k \<and> current_retry self < k"
  then have "on_error self (ValidationError es') m =
      (Inr (RetryPromptPart (tool_name m) (ErrorList (errors False False es')) (tool_call_id m)),
       self\<lparr>current_retry := current_retry self + 1\<rparr>)"
    by (simp add: on_error_within)
  with h show "fst (Tool_run self m rc ic w) =
      Inr (RetryPromptPart (tool_name m) (ErrorList (errors False False es')) (tool_call_id m))"
    by (simp add: run_decode_error)
next
  assume h: "decode_args (validator (function_schema self)) (args m) = Inr a' \<and>
    call (function_schema self) a' (derive_ctx self m rc) w = (Inl (Exc (ModelRetry s')), w') \<and>
    max_retries self = Some k \<and> current_retry self < k"
  then have "on_error self (ModelRetry s') m =
      (Inr (RetryPromptPart (tool_name m) (Text s') (tool_call_id m)),
       self\<lparr>current_retry := current_retry self + 1\<rparr>)"
    by (simp add: on_error_within)
  with h show "fst (Tool_run self m rc ic w) =
      Inr (RetryPromptPart (tool_name m) (Text s') (tool_call_id m))"
    by (simp add: run_model_retry [of self m a' rc w s' w'])
next
  assume "decode_args (validator (function_schema self)) (args m) = Inr a' \<and>
    call (function_schema self) a' (derive_ctx self m rc) w = (Inl e, w') \<and>
    (\<forall>s. e \<noteq> Exc (ModelRetry s))"
  then show "Tool_run self m rc ic w = (Inl e, self, w')"
    by (auto simp: run_decoded respond_def split: exn.splits retry_exc.splits)
next
  assume "decode_args (validator (function_schema self)) (args m) = Inl e \<and>
    (\<forall>es. e \<noteq> Exc (ValidationError es))"
  then show "Tool_run self m rc ic w = (Inl e, self, w)"
    by (simp add: run_decode_raises)
qed

theorem only_two_kinds_retried_witness:
  "decode_args (validator (function_schema (positive_tool (Some 1) ''t''))) (args (x_call ''c3'' 100))
     = Inl (Exc (ValidationError [x_error (PyInt 100)])) \<and>
   max_retries (positive_tool (Some 1) ''t'') = Some 1 \<and>
   current_retry (positive_tool (Some 1) ''t'') < 1 \<and>
   fst (Tool_run (positive_tool (Some 1) ''t'') (x_call ''c3'' 100) base_ctx False 0) =
     Inr (RetryPromptPart ''positive'' (ErrorList (errors False False [x_error (PyInt 100)])) ''c3'') \<and>
   decode_args (validator (function_schema (positive_tool (Some 1) ''t''))) (args (x_call ''c1'' (- 1)))
     = Inr (PyDict [(''x'', PyInt (- 1))]) \<and>
   call (function_schema (positive_tool (Some 1) ''t'')) (PyDict [(''x'', PyInt (- 1))])
         (derive_ctx (positive_tool (Some 1) ''t'') (x_call ''c1'' (- 1)) base_ctx) 0
     = (Inl (Exc (ModelRetry ''x must be positive'')), 1) \<and>
   fst (Tool_run (positive_tool (Some 1) ''t'') (x_call ''c1'' (- 1)) base_ctx False 0) =
     Inr (RetryPromptPart ''positive'' (Text ''x must be positive'') ''c1'') \<and>
   decode_args (validator (function_schema (positive_tool (Some 1) ''t''))) (args (x_call ''c2'' 0))
     = Inr (PyDict [(''x'', PyInt 0)]) \<and>
   call (function_schema (positive_tool (Some 1) ''t'')) (PyDict [(''x'', PyInt 0)])
         (derive_ctx (positive_tool (Some 1) ''t'') (x_call ''c2'' 0) base_ctx) 0
     = (Inl (OtherException ''ZeroDivisionError''), 1) \<and>
   Tool_run (positive_tool (Some 1) ''t'') (x_call ''c2'' 0) base_ctx False 0 =
     (Inl (OtherException ''ZeroDivisionError''), positive_tool (Some 1) ''t'', 1) \<and>
   decode_args (validator (function_schema (positive_tool (Some 1) ''t'')))
     (args (text_call ''c4'' ''abc'')) = Inl (OtherException ''NotImplementedError'') \<and>
   Tool_run (positive_tool (Some 1) ''t'') (text_call ''c4'' ''abc'') base_ctx False 0 =
     (Inl (OtherException ''NotImplementedError''), positive_tool (Some 1) ''t'', 0)"
proof -
  let ?t = "positive_tool (Some 1) ''t''"
  have k: "max_retries ?t = Some 1" and c: "current_retry ?t < 1"
    by (simp_all add: positive_tool_def Tool_init_def Let_def)
  have d3: "decode_args (validator (function_schema ?t)) (args (x_call ''c3'' 100))
     = Inl (Exc (ValidationError [x_error (PyInt 100)]))"
    by (simp add: positive_tool_def positive_schema_def positive_def x_validator_def
          x_validate_def x_error_def x_call_def base_ctx_def Tool_init_def decode_args_def Let_def)
  have d1: "decode_args (validator (function_schema ?t)) (args (x_call ''c1'' (- 1)))
     = Inr (PyDict [(''x'', PyInt (- 1))])"
    by (simp add: positive_tool_def positive_schema_def positive_def x_validator_def
          x_validate_def x_error_def x_call_def base_ctx_def Tool_init_def decode_args_def Let_def)
  have c1: "call (function_schema ?t) (PyDict [(''x'', PyInt (- 1))])
         (derive_ctx ?t (x_call ''c1'' (- 1)) base_ctx) 0
     = (Inl (Exc (ModelRetry ''x must be positive'')), 1)"
    by (simp add: positive_tool_def positive_schema_def positive_def x_validator_def
          x_validate_def x_error_def x_call_def base_ctx_def Tool_init_def call_def derive_ctx_def Let_def)
  have d2: "decode_args (validator (function_schema ?t)) (args (x_call ''c2'' 0))
     = Inr (PyDict [(''x'', PyInt 0)])"
    by (simp add: positive_tool_def positive_schema_def positive_def x_validator_def
          x_validate_def x_error_def x_call_def base_ctx_def Tool_init_def decode_args_def Let_def)
  have c2: "call (function_schema ?t) (PyDict [(''x'', PyInt 0)])
         (derive_ctx ?t (x_call ''c2'' 0) base_ctx) 0
     = (Inl (OtherException ''ZeroDivisionError''), 1)"
    by (simp add: positive_tool_def positive_schema_def positive_def x_validator_def
          x_validate_def x_error_def x_call_def base_ctx_def Tool_init_def call_def derive_ctx_def Let_def)
  have d4: "decode_args (validator (function_schema ?t)) (args (text_call ''c4'' ''abc''))
     = Inl (OtherException ''NotImplementedError'')"
    by (simp add: positive_tool_def positive_schema_def positive_def x_validator_def
          x_validate_def x_error_def x_call_def base_ctx_def Tool_init_def text_call_def decode_args_def Let_def)
  have n2: "\<forall>s. OtherException ''ZeroDivisionError'' \<noteq> Exc (ModelRetry s)"
    and n4: "\<forall>es. OtherException ''NotImplementedError'' \<noteq> Exc (ValidationError es)"
    by simp_all
  note t3 = only_two_kinds_retried [where self = ?t and m = "x_call ''c3'' 100" and rc = base_ctx
      and ic = False and w = 0 and es' = "[x_error (PyInt 100)]" and k = 1]
  from t3 d3 k c
  have r3: "fst (Tool_run ?t (x_call ''c3'' 100) base_ctx False 0) =
     Inr (RetryPromptPart ''positive'' (ErrorList (errors False False [x_error (PyInt 100)])) ''c3'')"
    by (simp add: x_call_def)
  note t1 = only_two_kinds_retried [where self = ?t and m = "x_call ''c1'' (- 1)" and rc = base_ctx
      and ic = False and w = 0 and a' = "PyDict [(''x'', PyInt (- 1))]"
      and s' = "''x must be positive''" and w' = 1 and k = 1
      and n = "''positive''" and c = "Text ''x must be positive''" and i = "''c1''"]
  from t1 d1 c1 k c
  have r1: "fst (Tool_run ?t (x_call ''c1'' (- 1)) base_ctx False 0) =
     Inr (RetryPromptPart ''positive'' (Text ''x must be positive'') ''c1'')"
    by (simp add: x_call_def)
  with t1 have "(\<exists>es. decode_args (validator (function_schema ?t)) (args (x_call ''c1'' (- 1))) =
              Inl (Exc (ValidationError es))) \<or>
      (\<exists>a s. decode_args (validator (function_schema ?t)) (args (x_call ''c1'' (- 1))) = Inr a \<and>
              fst (call (function_schema ?t) a (derive_ctx ?t (x_call ''c1'' (- 1)) base_ctx) 0) =
                Inl (Exc (ModelRetry s)))"
    by blast
  note t2 = only_two_kinds_retried [where self = ?t and m = "x_call ''c2'' 0" and rc = base_ctx
      and ic = False and w = 0 and a' = "PyDict [(''x'', PyInt 0)]"
      and e = "OtherException ''ZeroDivisionError''" and w' = 1]
  from t2 d2 c2 n2
  have r2: "Tool_run ?t (x_call ''c2'' 0) base_ctx False 0 =
     (Inl (OtherException ''ZeroDivisionError''), ?t, 1)"
    by blast
  note t4 = only_two_kinds_retried [where self = ?t and m = "text_call ''c4'' ''abc''"
      and rc = base_ctx and ic = False and w = 0 and e = "OtherException ''NotImplementedError''"]
  from t4 d4 n4
  have r4: "Tool_run ?t (text_call ''c4'' ''abc'') base_ctx False 0 =
     (Inl (OtherException ''NotImplementedError''), ?t, 0)"
    by blast
  from d3 k c r3 d1 c1 r1 d2 c2 r2 d4 r4 show ?thesis
    by simp
qed

section \<open>Other exceptions and the counter\<close>

text \<open>
  C9. When the callable raises anything but \<open>ModelRetry\<close>, the exception propagates and the
  tool is left as it was, its counter included; a recoverable failure of a later call then
  takes the counter to the old value plus one.
\<close>

theorem other_exception_keeps_counter:
  assumes "decode_args (validator (function_schema self)) (args m) = Inr a"
    and "call (function_schema self) a (derive_ctx self m rc) w = (Inl e, w')"
    and "\<forall>s. e \<noteq> Exc (ModelRetry s)"
  shows "Tool_run self m rc ic w = (Inl e, self, w') \<and>
         (\<forall>m2 rc2 ic2. attempt_kind self m2 rc2 w' = Recoverable \<longrightarrow>
            current_retry (fst (snd (Tool_run (fst (snd (Tool_run self m rc ic w))) m2 rc2 ic2 w')))
              = current_retry self + 1)"
proof -
  have r: "Tool_run self m rc ic w = (Inl e, self, w')"
    using assms
    by (auto simp: Tool_run_def Tool__run_def respond_def split: exn.splits retry_exc.splits)
  have "current_retry (fst (snd (Tool_run self m2 rc2 ic2 w'))) = current_retry self + 1"
    if "attempt_kind self m2 rc2 w' = Recoverable" for m2 rc2 ic2
  proof -
    from run_recoverable [OF that, of ic2] obtain exc w2 where
      "Tool_run self m2 rc2 ic2 w' = (fst (on_error self exc m2), snd (on_error self exc m2), w2)"
      by blast
    then show ?thesis by (simp add: on_error_def Let_def)
  qed
  with r show ?thesis by simp
qed


theorem other_exception_keeps_counter_witness:
  "decode_args (validator (function_schema (positive_tool (Some 2) ''t''\<lparr>current_retry := 1\<rparr>)))
     (args (x_call ''c2'' 0)) = Inr (PyDict [(''x'', PyInt 0)]) \<and>
   call (function_schema (positive_tool (Some 2) ''t''\<lparr>current_retry := 1\<rparr>))
     (PyDict [(''x'', PyInt 0)])
     (derive_ctx (positive_tool (Some 2) ''t''\<lparr>current_retry := 1\<rparr>) (x_call ''c2'' 0) base_ctx) 1
     = (Inl (OtherException ''ZeroDivisionError''), 2) \<and>
   Tool_run (positive_tool (Some 2) ''t''\<lparr>current_retry := 1\<rparr>) (x_call ''c2'' 0) base_ctx False 1
     = (Inl (OtherException ''ZeroDivisionError''),
        positive_tool (Some 2) ''t''\<lparr>current_retry := 1\<rparr>, 2) \<and>
   attempt_kind (positive_tool (Some 2) ''t''\<lparr>current_retry := 1\<rparr>) (x_call ''c3'' 100) base_ctx 2
     = Recoverable \<and>
   current_retry (fst (snd (Tool_run (fst (snd
     (Tool_run (positive_tool (Some 2) ''t''\<lparr>current_retry := 1\<rparr>) (x_call ''c2'' 0) base_ctx False 1)))
     (x_call ''c3'' 100) base_ctx False 2))) = 2"
proof -
  let ?t = "positive_tool (Some 2) ''t''\<lparr>current_retry := 1\<rparr>"
  have d: "decode_args (validator (function_schema ?t)) (args (x_call ''c2'' 0))
     = Inr (PyDict [(''x'', PyInt 0)])"
    by (simp add: positive_tool_def positive_schema_def positive_def x_validator_def
          x_validate_def x_error_def x_call_def base_ctx_def Tool_init_def run_defs
          attempt_kind_def Let_def)
  have c: "call (function_schema ?t) (PyDict [(''x'', PyInt 0)])
         (derive_ctx ?t (x_call ''c2'' 0) base_ctx) 1
     = (Inl (OtherException ''ZeroDivisionError''), 2)"
    by (simp add: positive_tool_def positive_schema_def positive_def x_validator_def
          x_validate_def x_error_def x_call_def base_ctx_def Tool_init_def run_defs
          attempt_kind_def Let_def)
  have n: "\<forall>s. OtherException ''ZeroDivisionError'' \<noteq> Exc (ModelRetry s)"
    by simp
  have a: "attempt_kind ?t (x_call ''c3'' 100) base_ctx 2 = Recoverable"
    by (simp add: positive_tool_def positive_schema_def positive_def x_validator_def
          x_validate_def x_error_def x_call_def base_ctx_def Tool_init_def run_defs
          attempt_kind_def Let_def)
  have t: "current_retry ?t = 1"
    by simp
  note k = other_exception_keeps_counter [OF d c n, of False]
  from k have r: "Tool_run ?t (x_call ''c2'' 0) base_ctx False 1 =
      (Inl (OtherException ''ZeroDivisionError''), ?t, 2)"
    by (rule conjunct1)
  from k a have "current_retry (fst (snd (Tool_run (fst (snd
      (Tool_run ?t (x_call ''c2'' 0) base_ctx False 1))) (x_call ''c3'' 100) base_ctx False 2)))
      = current_retry ?t + 1"
    by blast
  with r a d c show ?thesis
    by simp
qed

section \<open>A tool without a bound\<close>

text \<open>
  Against C4 as it is stated. A tool whose \<open>max_retries\<close> is \<open>None\<close>, at its first
  recoverable failure: \<open>run\<close> has no default to fall back on and raises the fatal error.
\<close>

theorem unset_bound_counterexample:
  "max_retries (positive_tool None ''t'') = None \<and>
   current_retry (positive_tool None ''t'') = 0 \<and>
   attempt_kind (positive_tool None ''t'') (x_call ''c1'' (- 1)) base_ctx 0 = Recoverable \<and>
   Tool_run (positive_tool None ''t'') (x_call ''c1'' (- 1)) base_ctx False 0 =
     (Inl (UnexpectedModelBehavior ''Tool exceeded max retries count of None''
            (Some (ModelRetry ''x must be positive''))),
      positive_tool None ''t''\<lparr>current_retry := 1\<rparr>, 1)"
  by (simp add: positive_tool_def positive_schema_def positive_def x_validator_def
        x_validate_def x_error_def x_call_def base_ctx_def Tool_init_def run_defs
        attempt_kind_def Let_def)

text \<open>
  C4, as the code has it. When \<open>max_retries\<close> is \<open>None\<close>, every recoverable failure adds one
  to the counter and raises \<open>UnexpectedModelBehavior\<close> with the message
  \<open>Tool exceeded max retries count of None\<close>, whose cause is that failure: the
  \<open>ValidationError\<close> of the decoding, or the \<open>ModelRetry\<close> of the callable. No retry prompt
  is returned.
\<close>

theorem unset_bound_is_fatal:
  assumes "max_retries self = None"
  shows "(decode_args (validator (function_schema self)) (args m) =
            Inl (Exc (ValidationError es)) \<longrightarrow>
          Tool_run self m rc ic w =
            (Inl (UnexpectedModelBehavior ''Tool exceeded max retries count of None''
                   (Some (ValidationError es))),
             self\<lparr>current_retry := current_retry self + 1\<rparr>, w)) \<and>
         (decode_args (validator (function_schema self)) (args m) = Inr a \<and>
          call (function_schema self) a (derive_ctx self m rc) w =
            (Inl (Exc (ModelRetry s)), w') \<longrightarrow>
          Tool_run self m rc ic w =
            (Inl (UnexpectedModelBehavior ''Tool exceeded max retries count of None''
                   (Some (ModelRetry s))),
             self\<lparr>current_retry := current_retry self + 1\<rparr>, w'))"
proof (intro conjI impI)
  assume "decode_args (validator (function_schema self)) (args m) =
      Inl (Exc (ValidationError es))"
  then show "Tool_run self m rc ic w =
      (Inl (UnexpectedModelBehavior ''Tool exceeded max retries count of None''
             (Some (ValidationError es))),
       self\<lparr>current_retry := current_retry self + 1\<rparr>, w)"
    by (simp add: run_decode_error on_error_unset [OF assms])
next
  assume "decode_args (validator (function_schema self)) (args m) = Inr a \<and>
      call (function_schema self) a (derive_ctx self m rc) w = (Inl (Exc (ModelRetry s)), w')"
  then show "Tool_run self m rc ic w =
      (Inl (UnexpectedModelBehavior ''Tool exceeded max retries count of None''
             (Some (ModelRetry s))),
       self\<lparr>current_retry := current_retry self + 1\<rparr>, w')"
    by (simp add: run_model_retry [of self m a rc w s w'] on_error_unset [OF assms])
qed

theorem unset_bound_is_fatal_witness:
  "max_retries (positive_tool None ''t'') = None \<and>
   decode_args (validator (function_schema (positive_tool None ''t''))) (args (x_call ''c3'' 100))
     = Inl (Exc (ValidationError [x_error (PyInt 100)])) \<and>
   Tool_run (positive_tool None ''t'') (x_call ''c3'' 100) base_ctx False 0 =
     (Inl (UnexpectedModelBehavior ''Tool exceeded max retries count of None''
            (Some (ValidationError [x_error (PyInt 100)]))),
      positive_tool None ''t''\<lparr>current_retry := 1\<rparr>, 0) \<and>
   decode_args (validator (function_schema (positive_tool None ''t''))) (args (x_call ''c1'' (- 1)))
     = Inr (PyDict [(''x'', PyInt (- 1))]) \<and>
   call (function_schema (positive_tool None ''t'')) (PyDict [(''x'', PyInt (- 1))])
         (derive_ctx (positive_tool None ''t'') (x_call ''c1'' (- 1)) base_ctx) 0
     = (Inl (Exc (ModelRetry ''x must be positive'')), 1) \<and>
   Tool_run (positive_tool None ''t'') (x_call ''c1'' (- 1)) base_ctx False 0 =
     (Inl (UnexpectedModelBehavior ''Tool exceeded max retries count of None''
            (Some (ModelRetry ''x must be positive''))),
      positive_tool None ''t''\<lparr>current_retry := 1\<rparr>, 1)"
proof -
  let ?t = "positive_tool None ''t''"
  have m: "max_retries ?t = None" and c: "current_retry ?t = 0"
    by (simp_all add: positive_tool_def Tool_init_def Let_def)
  have d3: "decode_args (validator (function_schema ?t)) (args (x_call ''c3'' 100))
     = Inl (Exc (ValidationError [x_error (PyInt 100)]))"
    by (simp add: positive_tool_def positive_schema_def positive_def x_validator_def
          x_validate_def x_error_def x_call_def base_ctx_def Tool_init_def decode_args_def Let_def)
  have d1: "decode_args (validator (function_schema ?t)) (args (x_call ''c1'' (- 1)))
     = Inr (PyDict [(''x'', PyInt (- 1))])"
    by (simp add: positive_tool_def positive_schema_def positive_def x_validator_def
          x_validate_def x_error_def x_call_def base_ctx_def Tool_init_def decode_args_def Let_def)
  have c1: "call (function_schema ?t) (PyDict [(''x'', PyInt (- 1))])
         (derive_ctx ?t (x_call ''c1'' (- 1)) base_ctx) 0
     = (Inl (Exc (ModelRetry ''x must be positive'')), 1)"
    by (simp add: positive_tool_def positive_schema_def positive_def x_validator_def
          x_validate_def x_error_def x_call_def base_ctx_def Tool_init_def call_def derive_ctx_def Let_def)
  from unset_bound_is_fatal [OF m, where m = "x_call ''c3'' 100" and rc = base_ctx
      and ic = False and w = 0 and es = "[x_error (PyInt 100)]"] d3 c
  have r3: "Tool_run ?t (x_call ''c3'' 100) base_ctx False 0 =
     (Inl (UnexpectedModelBehavior ''Tool exceeded max retries count of None''
            (Some (ValidationError [x_error (PyInt 100)]))),
      ?t\<lparr>current_retry := 1\<rparr>, 0)"
    by simp
  from unset_bound_is_fatal [OF m, where m = "x_call ''c1'' (- 1)" and rc = base_ctx
      and ic = False and w = 0 and a = "PyDict [(''x'', PyInt (- 1))]"
      and s = "''x must be positive''" and w' = 1] d1 c1 c
  have r1: "Tool_run ?t (x_call ''c1'' (- 1)) base_ctx False 0 =
     (Inl (UnexpectedModelBehavior ''Tool exceeded max retries count of None''
            (Some (ModelRetry ''x must be positive''))),
      ?t\<lparr>current_retry := 1\<rparr>, 1)"
    by simp
  from m d3 r3 d1 c1 r1 show ?thesis
    by simp
qed

section \<open>What the fatal error reports\<close>

text \<open>
  Against C5 as it is stated. Two tools that differ in their names, each called under its
  own name and out of retries: the two errors are the same, so the error does not tell the
  tools apart.
\<close>

theorem exhausted_error_counterexample:
  "name (positive_tool (Some 0) ''alpha'') = ''alpha'' \<and>
   name (positive_tool (Some 0) ''beta'') = ''beta'' \<and>
   fst (Tool_run (positive_tool (Some 0) ''alpha'')
          ((x_call ''c1'' (- 1))\<lparr>tool_name := ''alpha''\<rparr>) base_ctx False 0) =
     Inl (UnexpectedModelBehavior ''Tool exceeded max retries count of 0''
            (Some (ModelRetry ''x must be positive''))) \<and>
   fst (Tool_run (positive_tool (Some 0) ''beta'')
          ((x_call ''c1'' (- 1))\<lparr>tool_name := ''beta''\<rparr>) base_ctx False 0) =
     Inl (UnexpectedModelBehavior ''Tool exceeded max retries count of 0''
            (Some (ModelRetry ''x must be positive'')))"
  by (simp add: positive_tool_def positive_schema_def positive_def x_validator_def
        x_validate_def x_error_def x_call_def base_ctx_def Tool_init_def run_defs Let_def)

text \<open>
  \<open>run\<close> never reads the name of the tool.
\<close>

lemma on_error_ignores_name:
  "fst (on_error (self\<lparr>name := n\<rparr>) exc m) = fst (on_error self exc m)"
  by (simp add: on_error_def Let_def)

lemma run_ignores_name:
  "fst (Tool_run (self\<lparr>name := n\<rparr>) m rc ic w) = fst (Tool_run self m rc ic w)"
proof -
  have d: "derive_ctx (self\<lparr>name := n\<rparr>) m rc = derive_ctx self m rc"
    by (simp add: derive_ctx_def)
  have r: "fst (respond (self\<lparr>name := n\<rparr>) m c) = fst (respond self m c)" for c
    by (simp add: respond_def case_prod_beta on_error_ignores_name
             split: sum.splits exn.splits retry_exc.splits prod.splits)
  show ?thesis
    by (simp add: Tool_run_def Tool__run_def d r case_prod_beta on_error_ignores_name
             split: sum.splits exn.splits retry_exc.splits)
qed

text \<open>
  C5, as the code has it. When a recoverable failure finds the counter at the bound \<open>k\<close> or
  beyond, the error is \<open>UnexpectedModelBehavior\<close> with the message
  \<open>Tool exceeded max retries count of\<close> followed by \<open>str(k)\<close>, whose cause is that failure:
  the \<open>ValidationError\<close> of the decoding, or the \<open>ModelRetry\<close> of the callable. The message
  determines \<open>k\<close>. The field \<open>name\<close> of the tool is not read: with another value in it,
  the same call raises the same error.
\<close>

theorem exhausted_error_content:
  assumes "max_retries self = Some k"
    and "k \<le> current_retry self"
  shows "(decode_args (validator (function_schema self)) (args m) =
            Inl (Exc (ValidationError es)) \<longrightarrow>
          Tool_run self m rc ic w =
            (Inl (UnexpectedModelBehavior
                   (''Tool exceeded max retries count of '' @ str_int k)
                   (Some (ValidationError es))),
             self\<lparr>current_retry := current_retry self + 1\<rparr>, w)) \<and>
         (decode_args (validator (function_schema self)) (args m) = Inr a \<and>
          call (function_schema self) a (derive_ctx self m rc) w =
            (Inl (Exc (ModelRetry s)), w') \<longrightarrow>
          Tool_run self m rc ic w =
            (Inl (UnexpectedModelBehavior
                   (''Tool exceeded max retries count of '' @ str_int k)
                   (Some (ModelRetry s))),
             self\<lparr>current_retry := current_retry self + 1\<rparr>, w')) \<and>
         (\<forall>j. ''Tool exceeded max retries count of '' @ str_int j =
                ''Tool exceeded max retries count of '' @ str_int k \<longrightarrow> j = k) \<and>
         fst (Tool_run (self\<lparr>name := n\<rparr>) m rc ic w) = fst (Tool_run self m rc ic w)"
proof (intro conjI impI allI)
  assume "decode_args (validator (function_schema self)) (args m) =
      Inl (Exc (ValidationError es))"
  then show "Tool_run self m rc ic w =
      (Inl (UnexpectedModelBehavior (''Tool exceeded max retries count of '' @ str_int k)
             (Some (ValidationError es))),
       self\<lparr>current_retry := current_retry self + 1\<rparr>, w)"
    by (simp add: run_decode_error on_error_beyond [OF assms])
next
  assume "decode_args (validator (function_schema self)) (args m) = Inr a \<and>
      call (function_schema self) a (derive_ctx self m rc) w = (Inl (Exc (ModelRetry s)), w')"
  then show "Tool_run self m rc ic w =
      (Inl (UnexpectedModelBehavior (''Tool exceeded max retries count of '' @ str_int k)
             (Some (ModelRetry s))),
       self\<lparr>current_retry := current_retry self + 1\<rparr>, w')"
    by (simp add: run_model_retry [of self m a rc w s w'] on_error_beyond [OF assms])
next
  fix j
  assume "''Tool exceeded max retries count of '' @ str_int j =
      ''Tool exceeded max retries count of '' @ str_int k"
  then show "j = k"
    by (intro str_int_inj) simp
next
  show "fst (Tool_run (self\<lparr>name := n\<rparr>) m rc ic w) = fst (Tool_run self m rc ic w)"
    by (rule run_ignores_name)
qed

theorem exhausted_error_content_witness:
  "max_retries (positive_tool (Some 12) ''alpha''\<lparr>current_retry := 12\<rparr>) = Some 12 \<and>
   12 \<le> current_retry (positive_tool (Some 12) ''alpha''\<lparr>current_retry := 12\<rparr>) \<and>
   decode_args (validator (function_schema (positive_tool (Some 12) ''alpha''\<lparr>current_retry := 12\<rparr>)))
     (args (x_call ''c3'' 100)) = Inl (Exc (ValidationError [x_error (PyInt 100)])) \<and>
   Tool_run (positive_tool (Some 12) ''alpha''\<lparr>current_retry := 12\<rparr>) (x_call ''c3'' 100)
     base_ctx False 0 =
     (Inl (UnexpectedModelBehavior ''Tool exceeded max retries count of 12''
            (Some (ValidationError [x_error (PyInt 100)]))),
      positive_tool (Some 12) ''alpha''\<lparr>current_retry := 13\<rparr>, 0) \<and>
   decode_args (validator (function_schema (positive_tool (Some 12) ''alpha''\<lparr>current_retry := 12\<rparr>)))
     (args (x_call ''c1'' (- 1))) = Inr (PyDict [(''x'', PyInt (- 1))]) \<and>
   call (function_schema (positive_tool (Some 12) ''alpha''\<lparr>current_retry := 12\<rparr>))
     (PyDict [(''x'', PyInt (- 1))])
     (derive_ctx (positive_tool (Some 12) ''alpha''\<lparr>current_retry := 12\<rparr>) (x_call ''c1'' (- 1))
        base_ctx) 0
     = (Inl (Exc (ModelRetry ''x must be positive'')), 1) \<and>
   Tool_run (positive_tool (Some 12) ''alpha''\<lparr>current_retry := 12\<rparr>) (x_call ''c1'' (- 1))
     base_ctx False 0 =
     (Inl (UnexpectedModelBehavior ''Tool exceeded max retries count of 12''
            (Some (ModelRetry ''x must be positive''))),
      positive_tool (Some 12) ''alpha''\<lparr>current_retry := 13\<rparr>, 1) \<and>
   fst (Tool_run (positive_tool (Some 12) ''alpha''\<lparr>current_retry := 12, name := ''beta''\<rparr>)
     (x_call ''c1'' (- 1)) base_ctx False 0) =
     Inl (UnexpectedModelBehavior ''Tool exceeded max retries count of 12''
            (Some (ModelRetry ''x must be positive'')))"
proof -
  let ?t = "positive_tool (Some 12) ''alpha''\<lparr>current_retry := 12\<rparr>"
  have m: "max_retries ?t = Some 12"
    by (simp add: positive_tool_def Tool_init_def Let_def)
  have c: "12 \<le> current_retry ?t"
    by simp
  have d3: "decode_args (validator (function_schema ?t)) (args (x_call ''c3'' 100))
     = Inl (Exc (ValidationError [x_error (PyInt 100)]))"
    by (simp add: positive_tool_def positive_schema_def positive_def x_validator_def
          x_validate_def x_error_def x_call_def base_ctx_def Tool_init_def decode_args_def Let_def)
  have d1: "decode_args (validator (function_schema ?t)) (args (x_call ''c1'' (- 1)))
     = Inr (PyDict [(''x'', PyInt (- 1))])"
    by (simp add: positive_tool_def positive_schema_def positive_def x_validator_def
          x_validate_def x_error_def x_call_def base_ctx_def Tool_init_def decode_args_def Let_def)
  have c1: "call (function_schema ?t) (PyDict [(''x'', PyInt (- 1))])
         (derive_ctx ?t (x_call ''c1'' (- 1)) base_ctx) 0
     = (Inl (Exc (ModelRetry ''x must be positive'')), 1)"
    by (simp add: positive_tool_def positive_schema_def positive_def x_validator_def
          x_validate_def x_error_def x_call_def base_ctx_def Tool_init_def call_def derive_ctx_def Let_def)
  have s12: "str_int 12 = ''12''"
    by (simp add: str_int_def str_nat.simps)
  note t3 = exhausted_error_content [OF m c, where m = "x_call ''c3'' 100" and rc = base_ctx
      and ic = False and w = 0 and es = "[x_error (PyInt 100)]"]
  from t3 have "decode_args (validator (function_schema ?t)) (args (x_call ''c3'' 100)) =
        Inl (Exc (ValidationError [x_error (PyInt 100)])) \<longrightarrow>
      Tool_run ?t (x_call ''c3'' 100) base_ctx False 0 =
        (Inl (UnexpectedModelBehavior (''Tool exceeded max retries count of '' @ str_int 12)
               (Some (ValidationError [x_error (PyInt 100)]))),
         ?t\<lparr>current_retry := current_retry ?t + 1\<rparr>, 0)"
    by (rule conjunct1)
  with d3 have r3: "Tool_run ?t (x_call ''c3'' 100) base_ctx False 0 =
     (Inl (UnexpectedModelBehavior ''Tool exceeded max retries count of 12''
            (Some (ValidationError [x_error (PyInt 100)]))),
      positive_tool (Some 12) ''alpha''\<lparr>current_retry := 13\<rparr>, 0)"
    by (simp add: s12)
  note t1 = exhausted_error_content [OF m c, where m = "x_call ''c1'' (- 1)" and rc = base_ctx
      and ic = False and w = 0 and a = "PyDict [(''x'', PyInt (- 1))]"
      and s = "''x must be positive''" and w' = 1 and n = "''beta''"]
  from t1 have "decode_args (validator (function_schema ?t)) (args (x_call ''c1'' (- 1))) =
        Inr (PyDict [(''x'', PyInt (- 1))]) \<and>
      call (function_schema ?t) (PyDict [(''x'', PyInt (- 1))])
        (derive_ctx ?t (x_call ''c1'' (- 1)) base_ctx) 0 =
        (Inl (Exc (ModelRetry ''x must be positive'')), 1) \<longrightarrow>
      Tool_run ?t (x_call ''c1'' (- 1)) base_ctx False 0 =
        (Inl (UnexpectedModelBehavior (''Tool exceeded max retries count of '' @ str_int 12)
               (Some (ModelRetry ''x must be positive''))),
         ?t\<lparr>current_retry := current_retry ?t + 1\<rparr>, 1)"
    by (rule conjunct1 [OF conjunct2])
  with d1 c1 have r1: "Tool_run ?t (x_call ''c1'' (- 1)) base_ctx False 0 =
     (Inl (UnexpectedModelBehavior ''Tool exceeded max retries count of 12''
            (Some (ModelRetry ''x must be positive''))),
      positive_tool (Some 12) ''alpha''\<lparr>current_retry := 13\<rparr>, 1)"
    by (simp add: s12)
  from t1 have "fst (Tool_run (?t\<lparr>name := ''beta''\<rparr>) (x_call ''c1'' (- 1)) base_ctx False 0) =
      fst (Tool_run ?t (x_call ''c1'' (- 1)) base_ctx False 0)"
    by (rule conjunct2 [OF conjunct2 [OF conjunct2]])
  with r1 have rb: "fst (Tool_run (?t\<lparr>name := ''beta''\<rparr>) (x_call ''c1'' (- 1)) base_ctx False 0) =
     Inl (UnexpectedModelBehavior ''Tool exceeded max retries count of 12''
            (Some (ModelRetry ''x must be positive'')))"
    by simp
  from m c d3 r3 d1 c1 r1 rb show ?thesis
    by simp
qed

text \<open>
  The cause is the failure itself. A callable that puts the tool name of its context into
  the message of its \<open>ModelRetry\<close> is reported with that message, so the cause can hold
  the name under which the tool was called.
\<close>

lemma cause_may_hold_the_name:
  "fst (Tool_run (complain_tool ''alpha'')
          \<lparr>tool_name = ''alpha'', args = ArgsNone, tool_call_id = ''c1''\<rparr> base_ctx False ()) =
     Inl (UnexpectedModelBehavior ''Tool exceeded max retries count of 0''
            (Some (ModelRetry ''alpha''))) \<and>
   fst (Tool_run (complain_tool ''beta'')
          \<lparr>tool_name = ''beta'', args = ArgsNone, tool_call_id = ''c1''\<rparr> base_ctx False ()) =
     Inl (UnexpectedModelBehavior ''Tool exceeded max retries count of 0''
            (Some (ModelRetry ''beta'')))"
  by (simp add: complain_tool_def complain_schema_def complain_def no_fields_validator_def
        base_ctx_def run_defs Let_def)

section \<open>The context the callable sees\<close>

text \<open>
  C6. For a callable that takes the context, once the arguments are decoded, the result of
  \<open>run\<close> is what \<open>_run\<close> makes of the callable applied to the base context with \<open>retry\<close>
  replaced by the tool's counter as it is before the call, and with the tool name and the
  call identifier replaced by those of the call message. The other fields are those of the
  base context.
\<close>

theorem context_derivation:
  assumes "fs_takes_ctx (function_schema self)"
    and "decode_args (validator (function_schema self)) (args m) = Inr a"
  shows "Tool_run self m rc ic w =
           respond self m
             (fn_call (fs_function (function_schema self))
                (Some (rc\<lparr>retry := current_retry self,
                           ctx_tool_name := Some (tool_name m),
                           ctx_tool_call_id := Some (tool_call_id m)\<rparr>)) a w)"
  using assms
  by (simp add: Tool_run_def Tool__run_def call_def derive_ctx_def)

theorem context_derivation_witness:
  "fs_takes_ctx (function_schema (echo_tool\<lparr>current_retry := 1\<rparr>)) \<and>
   decode_args (validator (function_schema (echo_tool\<lparr>current_retry := 1\<rparr>)))
     (args \<lparr>tool_name = ''e'', args = ArgsNone, tool_call_id = ''c9''\<rparr>) = Inr (PyDict []) \<and>
   retry base_ctx = 7 \<and> ctx_tool_name base_ctx = None \<and> ctx_tool_call_id base_ctx = Some ''old'' \<and>
   Tool_run (echo_tool\<lparr>current_retry := 1\<rparr>)
     \<lparr>tool_name = ''e'', args = ArgsNone, tool_call_id = ''c9''\<rparr> base_ctx False () =
     (Inr (ToolReturnPart ''e'' (PyList [PyInt 1, PyStr ''e'', PyStr ''c9'', PyDict []]) ''c9''),
      echo_tool, ())"
proof -
  let ?t = "echo_tool\<lparr>current_retry := 1\<rparr>"
  let ?m = "\<lparr>tool_name = ''e'', args = ArgsNone, tool_call_id = ''c9''\<rparr>"
  have t: "fs_takes_ctx (function_schema ?t)"
    by (simp add: echo_tool_def echo_schema_def echo_def no_fields_validator_def base_ctx_def
          Tool_init_def Let_def)
  have d: "decode_args (validator (function_schema ?t)) (args ?m) = Inr (PyDict [])"
    by (simp add: echo_tool_def echo_schema_def echo_def no_fields_validator_def base_ctx_def
          Tool_init_def decode_args_def Let_def)
  have b: "retry base_ctx = 7 \<and> ctx_tool_name base_ctx = None \<and>
      ctx_tool_call_id base_ctx = Some ''old''"
    by (simp add: base_ctx_def)
  from context_derivation [OF t d, of base_ctx False "()"] 
  have "Tool_run ?t ?m base_ctx False () =
     (Inr (ToolReturnPart ''e'' (PyList [PyInt 1, PyStr ''e'', PyStr ''c9'', PyDict []]) ''c9''),
      echo_tool, ())"
    by (simp add: echo_tool_def echo_schema_def echo_def no_fields_validator_def base_ctx_def
          Tool_init_def respond_def Let_def)
  with t d b show ?thesis by simp
qed


section \<open>Decoding\<close>

text \<open>
  C7. Textual arguments go to \<open>validate_json\<close>, the empty string as \<open>{}\<close>; a dictionary goes
  to \<open>validate_python\<close> as it is, and absent arguments as the empty dictionary. \<open>run\<close> goes
  on from what that gives: the callable is called on the decoded value, a \<open>ValidationError\<close>
  goes to \<open>_on_error\<close>, and any other exception is raised as it is. When the validator
  takes \<open>{}\<close> to the empty dictionary (a schema that requires no field), the empty string
  decodes to the empty dictionary and the callable is called with it.
\<close>

theorem decoding_paths:
  "(args m = ArgsStr s \<longrightarrow>
      decode_args (validator (function_schema self)) (args m) =
        validate_json (validator (function_schema self)) (if s = [] then ''{}'' else s)) \<and>
   (args m = ArgsDict d \<longrightarrow>
      decode_args (validator (function_schema self)) (args m) =
        validate_python (validator (function_schema self)) (PyDict d)) \<and>
   (args m = ArgsNone \<longrightarrow>
      decode_args (validator (function_schema self)) (args m) =
        validate_python (validator (function_schema self)) (PyDict [])) \<and>
   (decode_args (validator (function_schema self)) (args m) = Inr a \<longrightarrow>
      Tool_run self m rc ic w =
        respond self m (call (function_schema self) a (derive_ctx self m rc) w)) \<and>
   (decode_args (validator (function_schema self)) (args m) = Inl (Exc (ValidationError es)) \<longrightarrow>
      Tool_run self m rc ic w =
        (fst (on_error self (ValidationError es) m),
         snd (on_error self (ValidationError es) m), w)) \<and>
   (decode_args (validator (function_schema self)) (args m) = Inl e \<and>
    (\<forall>es. e \<noteq> Exc (ValidationError es)) \<longrightarrow>
      Tool_run self m rc ic w = (Inl e, self, w)) \<and>
   (args m = ArgsStr [] \<and>
    validate_json (validator (function_schema self)) ''{}'' = Inr (PyDict []) \<longrightarrow>
      decode_args (validator (function_schema self)) (args m) = Inr (PyDict []) \<and>
      Tool_run self m rc ic w =
        respond self m (call (function_schema self) (PyDict []) (derive_ctx self m rc) w))"
proof -
  let ?v = "validator (function_schema self)"
  have str: "decode_args ?v (ArgsStr s) = validate_json ?v (if s = [] then ''{}'' else s)"
    by (simp add: decode_args_def)
  have dict: "decode_args ?v (ArgsDict d) = validate_python ?v (PyDict d)"
    by (simp add: decode_args_def)
  have absent: "decode_args ?v ArgsNone = validate_python ?v (PyDict [])"
    by (simp add: decode_args_def)
  have ok: "Tool_run self m rc ic w =
      respond self m (call (function_schema self) a (derive_ctx self m rc) w)"
    if "decode_args ?v (args m) = Inr a"
    using that by (rule run_decoded)
  have bad: "Tool_run self m rc ic w =
      (fst (on_error self (ValidationError es) m), snd (on_error self (ValidationError es) m), w)"
    if "decode_args ?v (args m) = Inl (Exc (ValidationError es))"
    using that by (rule run_decode_error)
  have other: "Tool_run self m rc ic w = (Inl e, self, w)"
    if "decode_args ?v (args m) = Inl e" and "\<forall>es. e \<noteq> Exc (ValidationError es)"
    using that by (rule run_decode_raises)
  have empty: "decode_args ?v (args m) = Inr (PyDict []) \<and>
      Tool_run self m rc ic w =
        respond self m (call (function_schema self) (PyDict []) (derive_ctx self m rc) w)"
    if a: "args m = ArgsStr []" and v: "validate_json ?v ''{}'' = Inr (PyDict [])"
  proof -
    have "decode_args ?v (args m) = Inr (PyDict [])"
      using v by (simp add: a decode_args_def)
    then show ?thesis
      by (simp add: run_decoded)
  qed
  from str dict absent ok bad other empty show ?thesis
    by simp
qed



theorem decoding_paths_witness:
  "validate_json (validator (function_schema echo_tool)) ''{}'' = Inr (PyDict []) \<and>
   decode_args (validator (function_schema echo_tool))
     (args \<lparr>tool_name = ''e'', args = ArgsStr [], tool_call_id = ''c9''\<rparr>) = Inr (PyDict []) \<and>
   Tool_run echo_tool \<lparr>tool_name = ''e'', args = ArgsStr [], tool_call_id = ''c9''\<rparr>
     base_ctx False () =
     (Inr (ToolReturnPart ''e'' (PyList [PyInt 0, PyStr ''e'', PyStr ''c9'', PyDict []]) ''c9''),
      echo_tool, ()) \<and>
   decode_args (validator (function_schema echo_tool))
     (args \<lparr>tool_name = ''e'', args = ArgsNone, tool_call_id = ''c9''\<rparr>) = Inr (PyDict []) \<and>
   decode_args (validator (function_schema (positive_tool (Some 1) ''t'')))
     (args (x_call ''c1'' 5)) = Inr (PyDict [(''x'', PyInt 5)]) \<and>
   Tool_run (positive_tool (Some 1) ''t'') (x_call ''c1'' 5) base_ctx False 0 =
     (Inr (ToolReturnPart ''positive'' (PyInt 5) ''c1''), positive_tool (Some 1) ''t'', 1) \<and>
   decode_args (validator (function_schema (positive_tool (Some 1) ''t'')))
     (args (x_call ''c3'' 100)) = Inl (Exc (ValidationError [x_error (PyInt 100)])) \<and>
   Tool_run (positive_tool (Some 1) ''t'') (x_call ''c3'' 100) base_ctx False 0 =
     (Inr (RetryPromptPart ''positive''
            (ErrorList (errors False False [x_error (PyInt 100)])) ''c3''),
      positive_tool (Some 1) ''t''\<lparr>current_retry := 1\<rparr>, 0) \<and>
   decode_args (validator (function_schema (positive_tool (Some 1) ''t'')))
     (args (text_call ''c4'' ''abc'')) = Inl (OtherException ''NotImplementedError'') \<and>
   Tool_run (positive_tool (Some 1) ''t'') (text_call ''c4'' ''abc'') base_ctx False 0 =
     (Inl (OtherException ''NotImplementedError''), positive_tool (Some 1) ''t'', 0)"
proof -
  let ?e = "echo_tool"
  let ?t = "positive_tool (Some 1) ''t''"
  let ?m = "\<lparr>tool_name = ''e'', args = ArgsStr [], tool_call_id = ''c9''\<rparr>"
  let ?n = "\<lparr>tool_name = ''e'', args = ArgsNone, tool_call_id = ''c9''\<rparr>"
  have v: "validate_json (validator (function_schema ?e)) ''{}'' = Inr (PyDict [])"
    by (simp add: echo_tool_def echo_schema_def echo_def no_fields_validator_def base_ctx_def
          Tool_init_def Let_def)
  have a: "args ?m = ArgsStr []" and an: "args ?n = ArgsNone"
    by simp_all
  note te = decoding_paths [where m = ?m and self = ?e and rc = base_ctx and ic = False
      and w = "()"]
  from te have "args ?m = ArgsStr [] \<and>
      validate_json (validator (function_schema ?e)) ''{}'' = Inr (PyDict []) \<longrightarrow>
      decode_args (validator (function_schema ?e)) (args ?m) = Inr (PyDict []) \<and>
      Tool_run ?e ?m base_ctx False () =
        respond ?e ?m (call (function_schema ?e) (PyDict []) (derive_ctx ?e ?m base_ctx) ())"
    by (rule conjunct2 [OF conjunct2 [OF conjunct2 [OF conjunct2 [OF conjunct2
          [OF conjunct2]]]]])
  with a v have de: "decode_args (validator (function_schema ?e)) (args ?m) = Inr (PyDict [])"
    and "Tool_run ?e ?m base_ctx False () =
        respond ?e ?m (call (function_schema ?e) (PyDict []) (derive_ctx ?e ?m base_ctx) ())"
    by blast+
  then have re: "Tool_run ?e ?m base_ctx False () =
     (Inr (ToolReturnPart ''e'' (PyList [PyInt 0, PyStr ''e'', PyStr ''c9'', PyDict []]) ''c9''),
      ?e, ())"
    by (simp add: echo_tool_def echo_schema_def echo_def no_fields_validator_def base_ctx_def
          Tool_init_def respond_def call_def derive_ctx_def Let_def)
  note tn = decoding_paths [where m = ?n and self = ?e]
  from tn have "args ?n = ArgsNone \<longrightarrow>
      decode_args (validator (function_schema ?e)) (args ?n) =
        validate_python (validator (function_schema ?e)) (PyDict [])"
    by (rule conjunct1 [OF conjunct2 [OF conjunct2]])
  with an have dn: "decode_args (validator (function_schema ?e)) (args ?n) = Inr (PyDict [])"
    by (simp add: echo_tool_def echo_schema_def echo_def no_fields_validator_def base_ctx_def
          Tool_init_def Let_def)
  have d5: "decode_args (validator (function_schema ?t)) (args (x_call ''c1'' 5)) =
      Inr (PyDict [(''x'', PyInt 5)])"
    by (simp add: positive_tool_def positive_schema_def positive_def x_validator_def
          x_validate_def x_error_def x_call_def base_ctx_def Tool_init_def decode_args_def Let_def)
  note t5 = decoding_paths [where m = "x_call ''c1'' 5" and self = ?t and rc = base_ctx
      and ic = False and w = 0 and a = "PyDict [(''x'', PyInt 5)]"]
  from t5 have "decode_args (validator (function_schema ?t)) (args (x_call ''c1'' 5)) =
        Inr (PyDict [(''x'', PyInt 5)]) \<longrightarrow>
      Tool_run ?t (x_call ''c1'' 5) base_ctx False 0 =
        respond ?t (x_call ''c1'' 5)
          (call (function_schema ?t) (PyDict [(''x'', PyInt 5)])
             (derive_ctx ?t (x_call ''c1'' 5) base_ctx) 0)"
    by (rule conjunct1 [OF conjunct2 [OF conjunct2 [OF conjunct2]]])
  with d5 have r5: "Tool_run ?t (x_call ''c1'' 5) base_ctx False 0 =
      (Inr (ToolReturnPart ''positive'' (PyInt 5) ''c1''), ?t, 1)"
    by (simp add: positive_tool_def positive_schema_def positive_def x_validator_def
          x_validate_def x_error_def x_call_def base_ctx_def Tool_init_def respond_def call_def derive_ctx_def Let_def)
  have d3: "decode_args (validator (function_schema ?t)) (args (x_call ''c3'' 100)) =
      Inl (Exc (ValidationError [x_error (PyInt 100)]))"
    by (simp add: positive_tool_def positive_schema_def positive_def x_validator_def
          x_validate_def x_error_def x_call_def base_ctx_def Tool_init_def decode_args_def Let_def)
  note t3 = decoding_paths [where m = "x_call ''c3'' 100" and self = ?t and rc = base_ctx
      and ic = False and w = 0 and es = "[x_error (PyInt 100)]"]
  from t3 have "decode_args (validator (function_schema ?t)) (args (x_call ''c3'' 100)) =
        Inl (Exc (ValidationError [x_error (PyInt 100)])) \<longrightarrow>
      Tool_run ?t (x_call ''c3'' 100) base_ctx False 0 =
        (fst (on_error ?t (ValidationError [x_error (PyInt 100)]) (x_call ''c3'' 100)),
         snd (on_error ?t (ValidationError [x_error (PyInt 100)]) (x_call ''c3'' 100)), 0)"
    by (rule conjunct1 [OF conjunct2 [OF conjunct2 [OF conjunct2 [OF conjunct2]]]])
  with d3 have r3: "Tool_run ?t (x_call ''c3'' 100) base_ctx False 0 =
      (Inr (RetryPromptPart ''positive''
             (ErrorList (errors False False [x_error (PyInt 100)])) ''c3''),
       ?t\<lparr>current_retry := 1\<rparr>, 0)"
    by (simp add: positive_tool_def x_call_def Tool_init_def on_error_def Let_def)
  have d4: "decode_args (validator (function_schema ?t)) (args (text_call ''c4'' ''abc'')) =
      Inl (OtherException ''NotImplementedError'')"
    by (simp add: positive_tool_def positive_schema_def positive_def x_validator_def
          x_validate_def x_error_def x_call_def base_ctx_def Tool_init_def text_call_def decode_args_def Let_def)
  have n4: "\<forall>es. OtherException ''NotImplementedError'' \<noteq> Exc (ValidationError es)"
    by simp
  note t4 = decoding_paths [where m = "text_call ''c4'' ''abc''" and self = ?t and rc = base_ctx
      and ic = False and w = 0 and e = "OtherException ''NotImplementedError''"]
  from t4 have "decode_args (validator (function_schema ?t)) (args (text_call ''c4'' ''abc'')) =
        Inl (OtherException ''NotImplementedError'') \<and>
      (\<forall>es. OtherException ''NotImplementedError'' \<noteq> Exc (ValidationError es)) \<longrightarrow>
      Tool_run ?t (text_call ''c4'' ''abc'') base_ctx False 0 =
        (Inl (OtherException ''NotImplementedError''), ?t, 0)"
    by (rule conjunct1 [OF conjunct2 [OF conjunct2 [OF conjunct2 [OF conjunct2 [OF conjunct2]]]]])
  with d4 n4 have r4: "Tool_run ?t (text_call ''c4'' ''abc'') base_ctx False 0 =
      (Inl (OtherException ''NotImplementedError''), ?t, 0)"
    by blast
  from v de re dn d5 r5 d3 r3 d4 r4 show ?thesis
    by simp
qed

section \<open>The content of a retry prompt\<close>

text \<open>
  C8. A retry prompt returned after a validation error holds the error details of that
  error, each without \<open>ctx\<close> and \<open>url\<close>; one returned after a \<open>ModelRetry\<close> holds its message.
  Both carry the tool name and the call identifier of the call message.
\<close>

theorem retry_prompt_content:
  "(decode_args (validator (function_schema self)) (args m) = Inl (Exc (ValidationError es)) \<and>
    fst (Tool_run self m rc ic w) = Inr p \<longrightarrow>
      p = RetryPromptPart (tool_name m)
            (ErrorList (map (\<lambda>e. e\<lparr>ed_ctx := None, ed_url := None\<rparr>) es)) (tool_call_id m)) \<and>
   (decode_args (validator (function_schema self)) (args m) = Inr a \<and>
    fst (call (function_schema self) a (derive_ctx self m rc) w) = Inl (Exc (ModelRetry s)) \<and>
    fst (Tool_run self m rc ic w) = Inr p \<longrightarrow>
      p = RetryPromptPart (tool_name m) (Text s) (tool_call_id m))"
  by (auto simp: Tool_run_def Tool__run_def respond_def on_error_def errors_def Let_def
           split: if_splits prod.splits)


theorem retry_prompt_content_witness:
  "decode_args (validator (function_schema (positive_tool (Some 1) ''t''))) (args (x_call ''c3'' 100))
     = Inl (Exc (ValidationError [x_error (PyInt 100)])) \<and>
   ed_ctx (x_error (PyInt 100)) = Some [(''lt'', PyInt 100)] \<and>
   ed_url (x_error (PyInt 100)) = Some ''https://errors.pydantic.dev/2.10/v/less_than'' \<and>
   fst (Tool_run (positive_tool (Some 1) ''t'') (x_call ''c3'' 100) base_ctx False 0) =
     Inr (RetryPromptPart ''positive''
           (ErrorList [\<lparr>ed_type = ''less_than'', ed_loc = [LocStr ''x''],
                        ed_msg = ''Input should be less than 100'', ed_input = PyInt 100,
                        ed_ctx = None, ed_url = None\<rparr>]) ''c3'') \<and>
   decode_args (validator (function_schema (positive_tool (Some 1) ''t''))) (args (x_call ''c1'' (- 1)))
     = Inr (PyDict [(''x'', PyInt (- 1))]) \<and>
   fst (call (function_schema (positive_tool (Some 1) ''t'')) (PyDict [(''x'', PyInt (- 1))])
         (derive_ctx (positive_tool (Some 1) ''t'') (x_call ''c1'' (- 1)) base_ctx) 0)
     = Inl (Exc (ModelRetry ''x must be positive'')) \<and>
   fst (Tool_run (positive_tool (Some 1) ''t'') (x_call ''c1'' (- 1)) base_ctx False 0) =
     Inr (RetryPromptPart ''positive'' (Text ''x must be positive'') ''c1'')"
proof -
  let ?t = "positive_tool (Some 1) ''t''"
  have d3: "decode_args (validator (function_schema ?t)) (args (x_call ''c3'' 100))
     = Inl (Exc (ValidationError [x_error (PyInt 100)]))"
    by (simp add: positive_tool_def positive_schema_def positive_def x_validator_def
          x_validate_def x_error_def x_call_def base_ctx_def Tool_init_def run_defs Let_def)
  have i3: "is_retry_prompt (fst (Tool_run ?t (x_call ''c3'' 100) base_ctx False 0))"
    by (simp add: positive_tool_def positive_schema_def positive_def x_validator_def
          x_validate_def x_error_def x_call_def base_ctx_def Tool_init_def run_defs
          is_retry_prompt_def Let_def)
  then obtain p3 where r3: "fst (Tool_run ?t (x_call ''c3'' 100) base_ctx False 0) = Inr p3"
    by (auto simp: is_retry_prompt_def split: sum.splits)
  from retry_prompt_content [of ?t "x_call ''c3'' 100" "[x_error (PyInt 100)]" base_ctx False 0 p3]
    d3 r3
  have "p3 = RetryPromptPart (tool_name (x_call ''c3'' 100))
            (ErrorList (map (\<lambda>e. e\<lparr>ed_ctx := None, ed_url := None\<rparr>) [x_error (PyInt 100)]))
            (tool_call_id (x_call ''c3'' 100))"
    by simp
  with r3 have e3: "fst (Tool_run ?t (x_call ''c3'' 100) base_ctx False 0) =
     Inr (RetryPromptPart ''positive''
           (ErrorList [\<lparr>ed_type = ''less_than'', ed_loc = [LocStr ''x''],
                        ed_msg = ''Input should be less than 100'', ed_input = PyInt 100,
                        ed_ctx = None, ed_url = None\<rparr>]) ''c3'')"
    by (simp add: x_call_def x_error_def)
  have d1: "decode_args (validator (function_schema ?t)) (args (x_call ''c1'' (- 1)))
     = Inr (PyDict [(''x'', PyInt (- 1))])"
    by (simp add: positive_tool_def positive_schema_def positive_def x_validator_def
          x_validate_def x_error_def x_call_def base_ctx_def Tool_init_def run_defs Let_def)
  have c1: "fst (call (function_schema ?t) (PyDict [(''x'', PyInt (- 1))])
         (derive_ctx ?t (x_call ''c1'' (- 1)) base_ctx) 0)
     = Inl (Exc (ModelRetry ''x must be positive''))"
    by (simp add: positive_tool_def positive_schema_def positive_def x_validator_def
          x_validate_def x_error_def x_call_def base_ctx_def Tool_init_def run_defs Let_def)
  have i1: "is_retry_prompt (fst (Tool_run ?t (x_call ''c1'' (- 1)) base_ctx False 0))"
    by (simp add: positive_tool_def positive_schema_def positive_def x_validator_def
          x_validate_def x_error_def x_call_def base_ctx_def Tool_init_def run_defs
          is_retry_prompt_def Let_def)
  then obtain p1 where r1: "fst (Tool_run ?t (x_call ''c1'' (- 1)) base_ctx False 0) = Inr p1"
    by (auto simp: is_retry_prompt_def split: sum.splits)
  from retry_prompt_content [of ?t "x_call ''c1'' (- 1)" _ base_ctx False 0 p1
      "PyDict [(''x'', PyInt (- 1))]" "''x must be positive''"] d1 c1 r1
  have "p1 = RetryPromptPart (tool_name (x_call ''c1'' (- 1))) (Text ''x must be positive'')
            (tool_call_id (x_call ''c1'' (- 1)))"
    by simp
  with r1 have e1: "fst (Tool_run ?t (x_call ''c1'' (- 1)) base_ctx False 0) =
     Inr (RetryPromptPart ''positive'' (Text ''x must be positive'') ''c1'')"
    by (simp add: x_call_def)
  have x: "ed_ctx (x_error (PyInt 100)) = Some [(''lt'', PyInt 100)] \<and>
     ed_url (x_error (PyInt 100)) = Some ''https://errors.pydantic.dev/2.10/v/less_than''"
    by (simp add: x_error_def)
  from d3 x e3 d1 c1 e1 show ?thesis by simp
qed

section \<open>Tools made by \<open>from_schema\<close>\<close>

text \<open>
  C10. A tool made by \<open>from_schema\<close>, whatever its bound and counter are set to later, does
  not take the context, and its \<open>validate_python\<close> returns any input as it is. Arguments
  that are a dictionary (or absent) reach the function unchanged, and \<open>run\<close> never returns
  a retry prompt that holds validation errors for them.
\<close>

theorem from_schema_no_validation:
  assumes "self = (from_schema from_json schema_compiler func n descr js)
                    \<lparr>max_retries := mr, current_retry := c\<rparr>"
  shows "takes_ctx self = False \<and>
         fs_takes_ctx (function_schema self) = False \<and>
         (\<forall>v. validate_python (validator (function_schema self)) v = Inr v) \<and>
         (args m = ArgsDict d \<longrightarrow>
            Tool_run self m rc ic w = respond self m (fn_call func None (PyDict d) w)) \<and>
         (args m = ArgsNone \<longrightarrow>
            Tool_run self m rc ic w = respond self m (fn_call func None (PyDict []) w)) \<and>
         ((\<forall>s. args m \<noteq> ArgsStr s) \<longrightarrow>
            (\<forall>tn es ci. fst (Tool_run self m rc ic w) \<noteq>
                          Inr (RetryPromptPart tn (ErrorList es) ci)))"
proof -
  have fs: "function_schema self =
      \<lparr>fs_function = func, fs_description = descr,
       validator = any_schema_validator from_json, json_schema = js,
       fs_takes_ctx = False, is_async = fn_is_async func\<rparr>"
    and tc: "takes_ctx self = False"
    by (simp_all add: assms from_schema_def Tool_init_def Let_def)
  have vp: "validate_python (validator (function_schema self)) v = Inr v" for v
    by (simp add: fs any_schema_validator_def)
  have run: "Tool_run self m rc ic w = respond self m (fn_call func None (PyDict d) w)"
    if "args m = ArgsDict d" for d
    using that vp by (simp add: Tool_run_def Tool__run_def decode_args_def call_def fs)
  have run0: "Tool_run self m rc ic w = respond self m (fn_call func None (PyDict []) w)"
    if "args m = ArgsNone"
    using that vp by (simp add: Tool_run_def Tool__run_def decode_args_def call_def fs)
  have no: "fst (respond self m x) \<noteq> Inr (RetryPromptPart tn (ErrorList es) ci)" for x tn es ci
    by (auto simp: respond_def on_error_def Let_def
             split: prod.splits sum.splits exn.splits retry_exc.splits if_splits)
  have "fst (Tool_run self m rc ic w) \<noteq> Inr (RetryPromptPart tn (ErrorList es) ci)"
    if "\<forall>s. args m \<noteq> ArgsStr s" for tn es ci
  proof (cases "args m")
    case (ArgsStr s)
    with that show ?thesis by simp
  next
    case (ArgsDict d)
    then show ?thesis by (simp add: run no)
  next
    case ArgsNone
    then show ?thesis by (simp add: run0 no)
  qed
  with run run0 tc vp fs show ?thesis by simp
qed

theorem from_schema_no_validation_witness:
  "args (x_call ''c3'' 100) = ArgsDict [(''x'', PyInt 100)] \<and>
   decode_args x_validator (args (x_call ''c3'' 100)) =
     Inl (Exc (ValidationError [x_error (PyInt 100)])) \<and>
   Tool_run ((from_schema (validate_json no_fields_validator) positive_schema positive
               ''pos'' None (PyDict []))\<lparr>max_retries := Some 1, current_retry := 0\<rparr>)
     (x_call ''c3'' 100) base_ctx False 0 =
     (Inr (ToolReturnPart ''positive'' (PyInt 100) ''c3''),
      (from_schema (validate_json no_fields_validator) positive_schema positive
               ''pos'' None (PyDict []))\<lparr>max_retries := Some 1, current_retry := 0\<rparr>, 1)"
proof -
  let ?t = "(from_schema (validate_json no_fields_validator) positive_schema positive
               ''pos'' None (PyDict []))\<lparr>max_retries := Some 1, current_retry := 0\<rparr>"
  have a: "args (x_call ''c3'' 100) = ArgsDict [(''x'', PyInt 100)]"
    by (simp add: x_call_def)
  have v: "decode_args x_validator (args (x_call ''c3'' 100)) =
     Inl (Exc (ValidationError [x_error (PyInt 100)]))"
    by (simp add: positive_tool_def positive_schema_def positive_def x_validator_def
          x_validate_def x_error_def x_call_def base_ctx_def Tool_init_def decode_args_def)
  from from_schema_no_validation [OF refl, where m = "x_call ''c3'' 100"
      and d = "[(''x'', PyInt 100)]" and rc = base_ctx and ic = False and w = 0
      and from_json = "validate_json no_fields_validator" and schema_compiler = positive_schema
      and func = positive and n = "''pos''" and descr = None and js = "PyDict []"
      and mr = "Some 1" and c = 0] a
  have "Tool_run ?t (x_call ''c3'' 100) base_ctx False 0 =
      respond ?t (x_call ''c3'' 100) (fn_call positive None (PyDict [(''x'', PyInt 100)]) 0)"
    by simp
  then have "Tool_run ?t (x_call ''c3'' 100) base_ctx False 0 =
     (Inr (ToolReturnPart ''positive'' (PyInt 100) ''c3''), ?t, 1)"
    by (simp add: respond_def positive_def x_call_def)
  with a v show ?thesis by simp
qed

end
